theory Spec2Isabelle
  imports Main "HOL-Library.Sublist"
begin

section \<open>Strings and paths\<close>

text \<open>
  Paths and keywords are Python \<open>str\<close> values. They are modelled as HOL strings, and
  \<open>str.lower\<close> as the folding of the ASCII capitals \<open>A\<close>..\<open>Z\<close> (codes 65..90), which is
  what \<open>str.lower\<close> does on ASCII text. The eight keywords are lower-case ASCII.
\<close>

definition lower_char :: "char \<Rightarrow> char" where
  "lower_char c =
     (let n = (of_char c :: nat) in if 65 \<le> n \<and> n \<le> 90 then char_of (n + 32) else c)"

definition lower :: "string \<Rightarrow> string" where
  "lower s = map lower_char s"

text \<open>Python's \<open>kw in s\<close> on strings: \<open>kw\<close> occurs in \<open>s\<close> as a contiguous block.\<close>

fun str_in :: "'a list \<Rightarrow> 'a list \<Rightarrow> bool" where
  "str_in kw [] = (kw = [])"
| "str_in kw (c # cs) = (prefix kw (c # cs) \<or> str_in kw cs)"

text \<open>
  A \<open>pathlib.Path\<close> as the scanner sees it: \<open>file_path.name\<close> (the last component) and
  \<open>str(file_path)\<close> (the whole path, root included).
\<close>

record path =
  name :: string
  str :: string

text \<open>
  Shell-style matching of a name against a pattern, as \<open>rglob\<close> applies it to the last
  component: \<open>*\<close> stands for any run of characters, \<open>?\<close> for one character, every
  other character for itself (the four patterns of the program use no bracket class).
\<close>

fun fnmatch :: "string \<Rightarrow> string \<Rightarrow> bool" where
  "fnmatch [] [] = True"
| "fnmatch (c # cs) [] = False"
| "fnmatch [] (p # ps) = (p = CHR ''*'' \<and> fnmatch [] ps)"
| "fnmatch (c # cs) (p # ps) =
     (if p = CHR ''*'' then fnmatch (c # cs) ps \<or> fnmatch cs (p # ps)
      else (p = CHR ''?'' \<or> p = c) \<and> fnmatch cs ps)"

section \<open>The environment\<close>

text \<open>
  Everything the program gets from outside is a field of the environment:
  \<^item> \<open>walk root\<close>: the entries below \<open>root\<close> in the order in which the recursive
    directory walk of \<open>Path(root).rglob\<close> visits them (empty when \<open>root\<close> is no directory);
  \<^item> \<open>ignore_case\<close>: whether the platform matches patterns case-insensitively
    (Windows) or not (POSIX);
  \<^item> \<open>mkdir\<close>: the outcome of \<open>output_dir.mkdir(exist_ok=True)\<close>, \<open>None\<close> when it succeeds;
  \<^item> \<open>load\<close>: the outcome of \<open>librosa.load(p, sr=None)\<close>, the decoded samples with the
    native sample rate, or the exception raised;
  \<^item> \<open>resample\<close>: the outcome of \<open>librosa.resample(y, orig_sr, target_sr)\<close>;
  \<^item> \<open>savefig\<close>: the outcome of \<open>plt.savefig\<close> for a file name, \<open>None\<close> when the file
    is written.
  Samples are floating-point numbers in the program; their values play no part in what
  is proved here, so their type is left open as \<open>'a\<close>.
\<close>

datatype exn = Exception string

record 'a env =
  walk :: "string \<Rightarrow> path list"
  ignore_case :: bool
  mkdir :: "string \<Rightarrow> exn option"
  load :: "path \<Rightarrow> exn + ('a list \<times> nat)"
  resample :: "'a list \<Rightarrow> nat \<Rightarrow> nat \<Rightarrow> exn + 'a list"
  savefig :: "string \<Rightarrow> exn option"

text \<open>
  \<open>Path(root).rglob(pattern)\<close> yields, in walk order, the entries whose name matches
  the pattern.
\<close>

definition fold_case :: "bool \<Rightarrow> string \<Rightarrow> string" where
  "fold_case ic s = (if ic then lower s else s)"

definition name_matches :: "bool \<Rightarrow> string \<Rightarrow> path \<Rightarrow> bool" where
  "name_matches ic pattern p = fnmatch (fold_case ic (name p)) (fold_case ic pattern)"

definition rglob :: "'a env \<Rightarrow> string \<Rightarrow> string \<Rightarrow> path list" where
  "rglob e root pattern = filter (name_matches (ignore_case e) pattern) (walk e root)"

text \<open>\<open>Path(root) / nm\<close>, with the separator of the platform.\<close>

definition child :: "string \<Rightarrow> char \<Rightarrow> string \<Rightarrow> path" where
  "child root sep nm = \<lparr>name = nm, str = root @ sep # nm\<rparr>"

text \<open>Some occurrence of \<open>p\<close> in \<open>xs\<close> comes before some occurrence of \<open>q\<close>.\<close>

fun before :: "'a list \<Rightarrow> 'a \<Rightarrow> 'a \<Rightarrow> bool" where
  "before [] p q = False"
| "before (x # xs) p q = ((x = p \<and> q \<in> set xs) \<or> before xs p q)"

section \<open>WaveformAnalyzer: the scan\<close>

record analyzer =
  data_path :: string
  real_files :: "path list"
  fake_files :: "path list"

definition init :: "string \<Rightarrow> analyzer" where
  "init dp = \<lparr>data_path = dp, real_files = [], fake_files = []\<rparr>"

definition audio_extensions :: "string list" where
  "audio_extensions = [''*.wav'', ''*.mp3'', ''*.flac'', ''*.m4a'']"

definition real_keywords :: "string list" where
  "real_keywords = [''real'', ''genuine'', ''original'', ''natural'']"

definition fake_keywords :: "string list" where
  "fake_keywords = [''fake'', ''synthetic'', ''generated'', ''artificial'']"

text \<open>
  \<open>any(keyword in filename or keyword in file_path_str.lower() for keyword in kws)\<close>
  with \<open>filename = file_path.name.lower()\<close> and \<open>file_path_str = str(file_path)\<close>.
\<close>

definition any_keyword :: "string list \<Rightarrow> path \<Rightarrow> bool" where
  "any_keyword kws file_path =
     (let filename = lower (name file_path);
          file_path_str = str file_path
      in list_ex (\<lambda>keyword. str_in keyword filename \<or> str_in keyword (lower file_path_str)) kws)"

text \<open>The body of the inner loop of \<open>find_audio_files\<close> (lines 29 to 44).\<close>

definition categorize :: "path \<Rightarrow> analyzer \<Rightarrow> analyzer" where
  "categorize file_path a =
     (if any_keyword real_keywords file_path
      then a\<lparr>real_files := real_files a @ [file_path]\<rparr>
      else if any_keyword fake_keywords file_path
      then a\<lparr>fake_files := fake_files a @ [file_path]\<rparr>
      else if length (real_files a) \<le> length (fake_files a)
      then a\<lparr>real_files := real_files a @ [file_path]\<rparr>
      else a\<lparr>fake_files := fake_files a @ [file_path]\<rparr>)"

text \<open>
  The order in which the two nested loops meet the files: for each extension in turn,
  what \<open>rglob\<close> yields for it.
\<close>

definition discovered :: "'a env \<Rightarrow> string \<Rightarrow> path list" where
  "discovered e root = concat (map (rglob e root) audio_extensions)"

definition scan :: "'a env \<Rightarrow> analyzer \<Rightarrow> analyzer" where
  "scan e a = fold (\<lambda>ext. fold categorize (rglob e (data_path a) ext)) audio_extensions a"

text \<open>The console is the list of the lines printed so far, oldest first.\<close>

datatype msg =
    Banner
  | Searching
  | Found_real nat
  | Found_fake nat
  | No_audio_files
  | Creating_waveform_analysis
  | Error_combined exn
  | Error_real exn
  | Error_fake exn
  | Waveform_saved
  | Skipping_detailed
  | Detailed_saved
  | Error_detailed exn
  | All_completed

text \<open>
  What the program has done to the outside so far: the lines printed, the directories
  \<open>mkdir\<close> was called on with success, and the PDF files saved with the figure each holds.
\<close>

type_synonym axes = "nat \<times> nat"

text \<open>
  A time axis \<open>np.arange(n) / sr\<close> is kept as the pair \<open>(n, sr)\<close>: it has \<open>n\<close> points.
  A figure is the list of what has been drawn, oldest first, each with the axes it is on
  (\<open>axes[i, j]\<close> is \<open>(i, j)\<close>, and \<open>axes[i]\<close> of the three stacked panels is \<open>(i, 0)\<close>).
  Colours, labels, legends and grids are left out.
\<close>

datatype 'a artist =
    Line "nat \<times> nat" "'a list"
  | Hist "'a list"
  | Title string
  | Text string

type_synonym 'a figure = "(axes \<times> 'a artist) list"

record 'a io =
  console :: "msg list"
  made :: "string list"
  pdfs :: "(string \<times> 'a figure) list"

text \<open>A call either returns or lets an exception escape to its caller.\<close>

datatype 'a outcome = Returned "'a io" | Raised exn "'a io"

definition print :: "msg \<Rightarrow> 'a io \<Rightarrow> 'a io" where
  "print m s = s\<lparr>console := console s @ [m]\<rparr>"

definition find_audio_files :: "'a env \<Rightarrow> analyzer \<Rightarrow> 'a io \<Rightarrow> bool \<times> analyzer \<times> 'a io" where
  "find_audio_files e a s =
     (let s1 = print Searching s;
          a' = scan e a;
          s2 = print (Found_real (length (real_files a'))) s1;
          s3 = print (Found_fake (length (fake_files a'))) s2
      in if real_files a' = [] \<and> fake_files a' = []
         then (False, a', print No_audio_files s3)
         else (True, a', s3))"

section \<open>WaveformAnalyzer: the two figures\<close>

definition plots_dir :: "string \<Rightarrow> string" where
  "plots_dir dp = dp @ ''/plots''"

definition waveform_pdf :: "string \<Rightarrow> string" where
  "waveform_pdf dp = plots_dir dp @ ''/waveform_analysis.pdf''"

definition detailed_pdf :: "string \<Rightarrow> string" where
  "detailed_pdf dp = plots_dir dp @ ''/detailed_waveform_analysis.pdf''"

text \<open>
  What can raise: \<open>mkdir\<close>, \<open>librosa.load\<close>, \<open>librosa.resample\<close> and \<open>savefig\<close>, as the
  environment says, and \<open>plot\<close> on arrays of different lengths. Printing and the other
  calls on the figure (\<open>subplots\<close>, titles, \<open>hist\<close>, \<open>text\<close>, \<open>tight_layout\<close>,
  \<open>close\<close>) are taken to succeed. Exceptions are those of class \<open>Exception\<close>, the ones
  an \<open>except Exception\<close> clause catches. Paths of the output are written with \<open>/\<close>.

  \<open>ax.plot(x, y)\<close> draws a line, and raises \<open>ValueError\<close> when \<open>x\<close> and \<open>y\<close> differ
  in length.
\<close>

definition plot :: "axes \<Rightarrow> nat \<times> nat \<Rightarrow> 'a list \<Rightarrow> 'a figure \<Rightarrow> exn + 'a figure" where
  "plot ax x y fig =
     (if fst x = length y then Inr (fig @ [(ax, Line x y)])
      else Inl (Exception ''x and y must have same first dimension''))"

text \<open>\<open>xs[0] if xs else None\<close>\<close>

definition example :: "path list \<Rightarrow> path option" where
  "example xs = (case xs of [] \<Rightarrow> None | x # _ \<Rightarrow> Some x)"

text \<open>
  The bodies of the three \<open>try\<close> blocks of \<open>create_waveform_comparison\<close>. Each gives the
  exception that ended it, if any, and the figure as it then is.
\<close>

definition combined_block :: "'a env \<Rightarrow> path \<Rightarrow> path \<Rightarrow> 'a figure \<Rightarrow> exn option \<times> 'a figure" where
  "combined_block e real_example fake_example fig =
     (case load e real_example of
        Inl ex \<Rightarrow> (Some ex, fig)
      | Inr (audio_real, sr_real) \<Rightarrow>
     (case load e fake_example of
        Inl ex \<Rightarrow> (Some ex, fig)
      | Inr (audio_fake, sr_fake) \<Rightarrow>
     (let time_real = (length audio_real, sr_real);
          time_fake = (length audio_fake, sr_fake)
      in case plot (0, 0) time_real audio_real fig of
           Inl ex \<Rightarrow> (Some ex, fig)
         | Inr fig1 \<Rightarrow>
        (case plot (0, 0) time_fake audio_fake fig1 of
           Inl ex \<Rightarrow> (Some ex, fig1)
         | Inr fig2 \<Rightarrow> (None, fig2 @ [((0, 0), Title ''A) Real vs Fake Waveform'')])))))"

definition single_block ::
  "'a env \<Rightarrow> axes \<Rightarrow> string \<Rightarrow> path \<Rightarrow> 'a figure \<Rightarrow> exn option \<times> 'a figure" where
  "single_block e ax title file fig =
     (case load e file of
        Inl ex \<Rightarrow> (Some ex, fig)
      | Inr (audio, sr) \<Rightarrow>
     (let max_samples = min (length audio) (5 * sr);
          time = (max_samples, sr)
      in case plot ax time (take max_samples audio) fig of
           Inl ex \<Rightarrow> (Some ex, fig)
         | Inr fig1 \<Rightarrow> (None, fig1 @ [(ax, Title title)])))"

text \<open>\<open>except Exception as e: print(...)\<close>\<close>

definition logged :: "(exn \<Rightarrow> msg) \<Rightarrow> exn option \<Rightarrow> 'a io \<Rightarrow> 'a io" where
  "logged m r s = (case r of None \<Rightarrow> s | Some ex \<Rightarrow> print (m ex) s)"

text \<open>
  The text of the last panel; \<open>os.path.basename\<close> of a \<open>Path\<close> is its last component,
  the \<open>name\<close>.
\<close>

definition summary :: "path option \<Rightarrow> path option \<Rightarrow> string" where
  "summary real_example fake_example =
     ''Waveform analysis complete.'' @ [CHR 0x0A, CHR 0x0A]
     @ (case real_example of None \<Rightarrow> [] | Some p \<Rightarrow> ''Real: '' @ name p @ [CHR 0x0A])
     @ (case fake_example of None \<Rightarrow> [] | Some p \<Rightarrow> ''Fake: '' @ name p)"

definition create_waveform_comparison :: "'a env \<Rightarrow> analyzer \<Rightarrow> 'a io \<Rightarrow> 'a outcome" where
  "create_waveform_comparison e a s =
     (let s1 = print Creating_waveform_analysis s;
          output_dir = plots_dir (data_path a)
      in case mkdir e output_dir of
           Some ex \<Rightarrow> Raised ex s1
         | None \<Rightarrow>
     (let s2 = s1\<lparr>made := made s1 @ [output_dir]\<rparr>;
          real_example = example (real_files a);
          fake_example = example (fake_files a);
          (r1, fig1) = (case (real_example, fake_example) of
                          (Some r, Some f) \<Rightarrow> combined_block e r f []
                        | _ \<Rightarrow> (None, []));
          s3 = logged Error_combined r1 s2;
          (r2, fig2) = (case real_example of
                          Some r \<Rightarrow> single_block e (0, 1) ''B) Real Sound (First 5 sec)'' r fig1
                        | None \<Rightarrow> (None, fig1));
          s4 = logged Error_real r2 s3;
          (r3, fig3) = (case fake_example of
                          Some f \<Rightarrow> single_block e (1, 0) ''C) Fake Sound (First 5 sec)'' f fig2
                        | None \<Rightarrow> (None, fig2));
          s5 = logged Error_fake r3 s4;
          fig4 = fig3 @ [((1, 1), Text (summary real_example fake_example))];
          pdf_path = waveform_pdf (data_path a)
      in case savefig e pdf_path of
           Some ex \<Rightarrow> Raised ex s5
         | None \<Rightarrow> Returned (print Waveform_saved (s5\<lparr>pdfs := pdfs s5 @ [(pdf_path, fig4)]\<rparr>))))"

text \<open>Lines 147 to 154: decode both files and bring them to the common rate.\<close>

definition prepare :: "'a env \<Rightarrow> path \<Rightarrow> path \<Rightarrow> exn + ('a list \<times> 'a list \<times> nat)" where
  "prepare e real_file fake_file =
     (case load e real_file of
        Inl ex \<Rightarrow> Inl ex
      | Inr (real_audio, sr_real) \<Rightarrow>
     (case load e fake_file of
        Inl ex \<Rightarrow> Inl ex
      | Inr (fake_audio, sr_fake) \<Rightarrow>
     (let target_sr = min sr_real (min sr_fake 22050)
      in case (if sr_real \<noteq> target_sr then resample e real_audio sr_real target_sr
               else Inr real_audio) of
           Inl ex \<Rightarrow> Inl ex
         | Inr real_audio' \<Rightarrow>
        (case (if sr_fake \<noteq> target_sr then resample e fake_audio sr_fake target_sr
               else Inr fake_audio) of
           Inl ex \<Rightarrow> Inl ex
         | Inr fake_audio' \<Rightarrow> Inr (real_audio', fake_audio', target_sr)))))"

text \<open>Lines 156 to 175: the overlay, the zoom and the histogram.\<close>

definition render_detailed :: "'a list \<Rightarrow> 'a list \<Rightarrow> nat \<Rightarrow> exn + 'a figure" where
  "render_detailed real_audio fake_audio target_sr =
     (let time = (length real_audio, target_sr)
      in case plot (0, 0) time real_audio [] of
           Inl ex \<Rightarrow> Inl ex
         | Inr fig1 \<Rightarrow>
        (case plot (0, 0) time fake_audio fig1 of
           Inl ex \<Rightarrow> Inl ex
         | Inr fig2 \<Rightarrow>
        (let fig3 = fig2 @ [((0, 0), Title ''Waveform Overlay'')];
             zoom_dur = 2;
             zoom_samples = zoom_dur * target_sr
         in case plot (1, 0) (zoom_samples, target_sr) (take zoom_samples real_audio) fig3 of
              Inl ex \<Rightarrow> Inl ex
            | Inr fig4 \<Rightarrow>
           (case plot (1, 0) (zoom_samples, target_sr) (take zoom_samples fake_audio) fig4 of
              Inl ex \<Rightarrow> Inl ex
            | Inr fig5 \<Rightarrow>
              Inr (fig5 @ [((1, 0), Title ''Zoomed (First 2 sec)''),
                           ((2, 0), Hist real_audio),
                           ((2, 0), Hist fake_audio),
                           ((2, 0), Title ''Amplitude Distribution'')])))))"

text \<open>The body of the \<open>try\<close> block of \<open>create_detailed_waveform_analysis\<close>, the save included.\<close>

definition detailed_block :: "'a env \<Rightarrow> string \<Rightarrow> path \<Rightarrow> path \<Rightarrow> exn + 'a figure" where
  "detailed_block e pdf_path real_file fake_file =
     (case prepare e real_file fake_file of
        Inl ex \<Rightarrow> Inl ex
      | Inr (real_audio, fake_audio, target_sr) \<Rightarrow>
     (case render_detailed real_audio fake_audio target_sr of
        Inl ex \<Rightarrow> Inl ex
      | Inr fig \<Rightarrow>
     (case savefig e pdf_path of
        Some ex \<Rightarrow> Inl ex
      | None \<Rightarrow> Inr fig)))"

definition create_detailed_waveform_analysis :: "'a env \<Rightarrow> analyzer \<Rightarrow> 'a io \<Rightarrow> 'a outcome" where
  "create_detailed_waveform_analysis e a s =
     (case (real_files a, fake_files a) of
        (real_file # _, fake_file # _) \<Rightarrow>
          (let output_dir = plots_dir (data_path a)
           in case mkdir e output_dir of
                Some ex \<Rightarrow> Raised ex s
              | None \<Rightarrow>
          (let s1 = s\<lparr>made := made s @ [output_dir]\<rparr>;
               pdf_path = detailed_pdf (data_path a)
           in case detailed_block e pdf_path real_file fake_file of
                Inr fig \<Rightarrow> Returned (print Detailed_saved (s1\<lparr>pdfs := pdfs s1 @ [(pdf_path, fig)]\<rparr>))
              | Inl ex \<Rightarrow> Returned (print (Error_detailed ex) s1)))
      | _ \<Rightarrow> Returned (print Skipping_detailed s))"

section \<open>The program\<close>

definition DATASET_PATH :: string where
  "DATASET_PATH = ''C:'' @ [CHR 0x5C] @ ''Users'' @ [CHR 0x5C] @ ''MZ'' @ [CHR 0x5C]
                  @ ''Downloads'' @ [CHR 0x5C] @ ''Dataset''"

definition main :: "'a env \<Rightarrow> 'a outcome" where
  "main e =
     (let s0 = print Banner \<lparr>console = [], made = [], pdfs = []\<rparr>;
          analyzer = init DATASET_PATH;
          (ok, analyzer', s1) = find_audio_files e analyzer s0
      in if \<not> ok then Returned s1
         else (case create_waveform_comparison e analyzer' s1 of
                 Raised ex s2 \<Rightarrow> Raised ex s2
               | Returned s2 \<Rightarrow>
              (case create_detailed_waveform_analysis e analyzer' s2 of
                 Raised ex s3 \<Rightarrow> Raised ex s3
               | Returned s3 \<Rightarrow> Returned (print All_completed s3))))"

section \<open>Reading a figure\<close>

text \<open>What has been drawn on one axes of a figure, oldest first.\<close>

definition on_axes :: "axes \<Rightarrow> 'a figure \<Rightarrow> 'a artist list" where
  "on_axes ax fig = map snd (filter (\<lambda>d. fst d = ax) fig)"

text \<open>
  What the panel of a single file is expected to show: the first five seconds of the
  decoded signal at its native rate and the title, or nothing when there is no file or
  its decoding fails; and the line the block is expected to print in that case.
\<close>

definition first_5_sec :: "'a env \<Rightarrow> string \<Rightarrow> path option \<Rightarrow> 'a artist list" where
  "first_5_sec e title file =
     (case file of
        None \<Rightarrow> []
      | Some p \<Rightarrow>
         (case load e p of
            Inl ex \<Rightarrow> []
          | Inr (audio, sr) \<Rightarrow>
              [Line (min (length audio) (5 * sr), sr) (take (5 * sr) audio), Title title]))"

definition block_error :: "'a env \<Rightarrow> (exn \<Rightarrow> msg) \<Rightarrow> path option \<Rightarrow> msg list" where
  "block_error e m file =
     (case file of
        None \<Rightarrow> []
      | Some p \<Rightarrow> (case load e p of Inl ex \<Rightarrow> [m ex] | Inr r \<Rightarrow> []))"

text \<open>
  What the combined panel is expected to show: the whole of both decoded signals, each
  against its own time axis, and the title; or nothing when one of the two files is
  missing or does not decode. And the line the combined block is expected to print: the
  error of the first of the two decodes that fails, the real file being decoded first.
\<close>

definition combined_panel :: "'a env \<Rightarrow> path option \<Rightarrow> path option \<Rightarrow> 'a artist list" where
  "combined_panel e real fake =
     (case (real, fake) of
        (Some r, Some f) \<Rightarrow>
          (case (load e r, load e f) of
             (Inr (audio_real, sr_real), Inr (audio_fake, sr_fake)) \<Rightarrow>
               [Line (length audio_real, sr_real) audio_real,
                Line (length audio_fake, sr_fake) audio_fake,
                Title ''A) Real vs Fake Waveform'']
           | _ \<Rightarrow> [])
      | _ \<Rightarrow> [])"

definition combined_error :: "'a env \<Rightarrow> path option \<Rightarrow> path option \<Rightarrow> msg list" where
  "combined_error e real fake =
     (case (real, fake) of
        (Some r, Some f) \<Rightarrow>
          (case load e r of
             Inl ex \<Rightarrow> [Error_combined ex]
           | Inr a \<Rightarrow> (case load e f of Inl ex \<Rightarrow> [Error_combined ex] | Inr b \<Rightarrow> []))
      | _ \<Rightarrow> [])"

text \<open>
  The whole figure of \<open>create_waveform_comparison\<close> as expected from the two examples:
  the combined panel, the panel of the real file, the panel of the fake file and the
  summary, drawn in this order.
\<close>

definition comparison_figure :: "'a env \<Rightarrow> path option \<Rightarrow> path option \<Rightarrow> 'a figure" where
  "comparison_figure e real fake =
     map (Pair (0, 0)) (combined_panel e real fake)
     @ map (Pair (0, 1)) (first_5_sec e ''B) Real Sound (First 5 sec)'' real)
     @ map (Pair (1, 0)) (first_5_sec e ''C) Fake Sound (First 5 sec)'' fake)
     @ [((1, 1), Text (summary real fake))]"

section \<open>The number of samples \<open>librosa.resample\<close> returns\<close>

text \<open>
  \<open>librosa.resample(y, orig_sr, target_sr)\<close> fixes the length of its output with
  \<open>ratio = float(target_sr) / orig_sr\<close> and \<open>n_samples = int(np.ceil(y.shape[axis] * ratio))\<close>.
  Both operations are on Python floats, that is IEEE 754 binary64 numbers: the quotient
  and the product are each rounded to the nearest representable number, ties to the even
  mantissa. A positive binary64 number is kept here as the pair \<open>(m, e)\<close> of its mantissa
  and exponent, standing for \<open>m * 2 ^ e\<close> with \<open>2 ^ 52 \<le> m \<le> 2 ^ 53\<close>; the arithmetic is on
  integers. Numbers outside the normal range of binary64 (below \<open>2 ^ - 1022\<close>, or too big
  to be represented) are not modelled: sample counts and ratios of sample rates are far
  from both ends.

  \<open>round_half_even p q\<close> is the integer nearest to \<open>p / q\<close> for \<open>q > 0\<close>, the even one
  of the two in a tie.
\<close>

definition round_half_even :: "int \<Rightarrow> int \<Rightarrow> int" where
  "round_half_even p q =
     (let n = p div q; r = p mod q
      in if 2 * r < q then n else if q < 2 * r then n + 1 else if even n then n else n + 1)"

text \<open>
  \<open>to_mantissa k p q e\<close> rewrites the positive number \<open>p / q * 2 ^ e\<close> without changing
  its value until \<open>2 ^ 52 \<le> p / q < 2 ^ 53\<close>, in at most \<open>k\<close> steps; the exponents of
  binary64 span fewer than 2200 binary orders of magnitude.
\<close>

fun to_mantissa :: "nat \<Rightarrow> int \<Rightarrow> int \<Rightarrow> int \<Rightarrow> int \<times> int \<times> int" where
  "to_mantissa 0 p q e = (p, q, e)"
| "to_mantissa (Suc k) p q e =
     (if p < 2 ^ 52 * q then to_mantissa k (2 * p) q (e - 1)
      else if 2 ^ 53 * q \<le> p then to_mantissa k p (2 * q) (e + 1)
      else (p, q, e))"

text \<open>The binary64 number nearest to \<open>p / q * 2 ^ e\<close>, for \<open>p \<ge> 0\<close> and \<open>q > 0\<close>.\<close>

definition nearest :: "int \<Rightarrow> int \<Rightarrow> int \<Rightarrow> int \<times> int" where
  "nearest p q e =
     (if p = 0 then (0, 0)
      else let (p', q', e') = to_mantissa 2200 p q e in (round_half_even p' q', e'))"

text \<open>\<open>int(np.ceil(x))\<close> of the binary64 number \<open>x = m * 2 ^ e\<close>.\<close>

definition ceil :: "int \<times> int \<Rightarrow> int" where
  "ceil x = (case x of (m, e) \<Rightarrow>
               if 0 \<le> e then m * 2 ^ nat e else - ((- m) div 2 ^ nat (- e)))"

definition n_samples :: "nat \<Rightarrow> nat \<Rightarrow> nat \<Rightarrow> nat" where
  "n_samples n orig_sr target_sr =
     (let ratio = nearest (int target_sr) (int orig_sr) 0
      in nat (ceil (nearest (int n * fst ratio) 1 (snd ratio))))"

section \<open>Sample environments\<close>

text \<open>
  A small dataset on a POSIX machine, used to run the definitions: six entries, one of
  them no audio file, every decode giving four samples at 4 Hz.
\<close>

definition demo_walk :: "string \<Rightarrow> path list" where
  "demo_walk root =
     [child root CHR ''/'' ''clip_b.mp3'', child root CHR ''/'' ''real_a.wav'',
      child root CHR ''/'' ''notes.txt'', child root CHR ''/'' ''Fake_c.wav'',
      child root CHR ''/'' ''clip_d.wav'', child root CHR ''/'' ''real_fake_e.flac'']"

definition demo_env :: "int env" where
  "demo_env = \<lparr>walk = demo_walk, ignore_case = False, mkdir = (\<lambda>d. None),
               load = (\<lambda>p. Inr ([0, 3, -2, 1], 4)), resample = (\<lambda>y orig_sr target_sr. Inr y),
               savefig = (\<lambda>f. None)\<rparr>"


text \<open>Two files that match no keyword.\<close>

definition plain_walk :: "string \<Rightarrow> path list" where
  "plain_walk root = [child root CHR ''/'' ''clip_1.wav'', child root CHR ''/'' ''clip_2.wav'']"

definition plain_env :: "int env" where
  "plain_env = demo_env\<lparr>walk := plain_walk\<rparr>"

text \<open>A file whose name holds a real keyword and a fake keyword.\<close>

definition mixed_path :: path where
  "mixed_path = child ''/data'' CHR ''/'' ''real_fake_e.flac''"

text \<open>An \<open>mp3\<close> file that the walk meets before a \<open>wav\<close> file.\<close>

definition order_walk :: "string \<Rightarrow> path list" where
  "order_walk root = [child root CHR ''/'' ''real_b.mp3'', child root CHR ''/'' ''real_a.wav'']"

definition order_env :: "int env" where
  "order_env = demo_env\<lparr>walk := order_walk\<rparr>"

text \<open>
  A Windows machine whose dataset folder holds \<open>fake_sample.wav\<close> and \<open>real_sample.wav\<close>.
\<close>

definition windows_env :: "int env" where
  "windows_env = demo_env\<lparr>walk := (\<lambda>root. [child root (CHR 0x5C) ''fake_sample.wav'',
                                               child root (CHR 0x5C) ''real_sample.wav'']),
                         ignore_case := True\<rparr>"

text \<open>Nothing printed, created or saved yet.\<close>

definition blank :: "int io" where
  "blank = \<lparr>console = [], made = [], pdfs = []\<rparr>"

text \<open>A Windows dataset folder that holds no audio file.\<close>

definition notes_env :: "int env" where
  "notes_env = demo_env\<lparr>walk := (\<lambda>root. [child root (CHR 0x5C) ''notes.txt''])\<rparr>"


text \<open>
  A machine whose \<open>librosa.resample\<close> returns \<^const>\<open>n_samples\<close> samples, each the
  input sample at or just before the same instant. Its dataset holds a real file of 147
  samples of silence at 44100 Hz and a fake file of 40 samples of silence at 12000 Hz,
  both 1/300 of a second long.
\<close>

definition silence :: "nat \<Rightarrow> int list" where
  "silence n = replicate n 0"

definition librosa_resample :: "int list \<Rightarrow> nat \<Rightarrow> nat \<Rightarrow> exn + int list" where
  "librosa_resample y orig_sr target_sr =
     (if orig_sr = 0 then Inl (Exception ''ZeroDivisionError'')
      else Inr (map (\<lambda>i. y ! min (i * orig_sr div target_sr) (length y - 1))
                    [0 ..< n_samples (length y) orig_sr target_sr]))"

definition clip_44100 :: path where
  "clip_44100 = child ''/data'' CHR ''/'' ''real_44100.wav''"

definition clip_12000 :: path where
  "clip_12000 = child ''/data'' CHR ''/'' ''fake_12000.wav''"

definition librosa_env :: "int env" where
  "librosa_env = \<lparr>walk = (\<lambda>root. [clip_44100, clip_12000]), ignore_case = False,
                  mkdir = (\<lambda>d. None),
                  load = (\<lambda>p. if p = clip_44100 then Inr (silence 147, 44100)
                               else Inr (silence 40, 12000)),
                  resample = librosa_resample, savefig = (\<lambda>f. None)\<rparr>"

text \<open>The sample dataset where the first real file is twice as long as the first fake file.\<close>

definition uneven_env :: "int env" where
  "uneven_env = demo_env\<lparr>load := (\<lambda>p. if name p = ''real_a.wav''
                                        then Inr ([5, 1, -4, 2, 0, 3, -1, 2, 6, -3, 1, 0], 3)
                                        else Inr ([1, -1, 2, -2, 3, -3], 3))\<rparr>"

text \<open>A dataset with one file, which is real.\<close>

definition only_real_env :: "int env" where
  "only_real_env = demo_env\<lparr>walk := (\<lambda>root. [child root CHR ''/'' ''real_a.wav''])\<rparr>"

text \<open>
  That dataset where the \<open>plots\<close> folder cannot be created, and where the figure
  cannot be written.
\<close>

definition locked_env :: "int env" where
  "locked_env = only_real_env\<lparr>mkdir := (\<lambda>d. Some (Exception ''PermissionError''))\<rparr>"

definition full_disk_env :: "int env" where
  "full_disk_env = only_real_env\<lparr>savefig := (\<lambda>f. Some (Exception ''OSError''))\<rparr>"

text \<open>The sample dataset where the first fake file, \<open>Fake_c.wav\<close>, does not decode.\<close>

definition corrupt_fake_env :: "int env" where
  "corrupt_fake_env = demo_env\<lparr>load := (\<lambda>p. if name p = ''Fake_c.wav''
                                              then Inl (Exception ''NoBackendError'')
                                              else Inr ([0, 3, -2, 1], 4))\<rparr>"

text \<open>
  A Windows machine whose dataset folder holds the two files under the names
  \<open>Fake_SAMPLE.wav\<close> and \<open>REAL_Sample.WAV\<close>; and a POSIX machine whose dataset folder,
  \<open>/Data/ORIGINAL\<close>, holds \<open>fake_sample.wav\<close> and \<open>real_sample.wav\<close>.
\<close>

definition capitals_env :: "int env" where
  "capitals_env = demo_env\<lparr>walk := (\<lambda>root. [child root (CHR 0x5C) ''Fake_SAMPLE.wav'',
                                                child root (CHR 0x5C) ''REAL_Sample.WAV'']),
                          ignore_case := True\<rparr>"

definition samples_env :: "int env" where
  "samples_env = demo_env\<lparr>walk := (\<lambda>root. [child root CHR ''/'' ''fake_sample.wav'',
                                               child root CHR ''/'' ''real_sample.wav''])\<rparr>"

text \<open>The exception of \<^const>\<open>plot\<close>.\<close>

definition ValueError :: exn where
  "ValueError = Exception ''x and y must have same first dimension''"

section \<open>Strings: basic facts\<close>

lemma str_in_sublist: "str_in kw s = sublist kw s"
  by (induction s) (auto simp: sublist_Cons_right)

section \<open>Patterns\<close>

lemma fnmatch_literal:
  "CHR ''*'' \<notin> set lit \<Longrightarrow> CHR ''?'' \<notin> set lit \<Longrightarrow> fnmatch s lit = (s = lit)"
proof (induction lit arbitrary: s)
  case Nil
  then show ?case by (cases s) simp_all
next
  case (Cons p ps)
  then show ?case by (cases s) auto
qed

lemma fnmatch_star_literal:
  "CHR ''*'' \<notin> set lit \<Longrightarrow> CHR ''?'' \<notin> set lit \<Longrightarrow> fnmatch s (CHR ''*'' # lit) = suffix lit s"
proof (induction s)
  case Nil
  then show ?case using fnmatch_literal[of lit "[]"] by auto
next
  case (Cons c cs)
  then show ?case using fnmatch_literal[of lit "c # cs"] by (auto simp: suffix_Cons)
qed

lemma lower_patterns:
  "lower ''*.wav'' = ''*.wav''" "lower ''*.mp3'' = ''*.mp3''"
  "lower ''*.flac'' = ''*.flac''" "lower ''*.m4a'' = ''*.m4a''"
  by code_simp+

lemma fold_case_patterns:
  "fold_case ic ''*.wav'' = ''*.wav''" "fold_case ic ''*.mp3'' = ''*.mp3''"
  "fold_case ic ''*.flac'' = ''*.flac''" "fold_case ic ''*.m4a'' = ''*.m4a''"
  by (simp_all add: fold_case_def lower_patterns)

lemma name_matches_suffix:
  "name_matches ic ''*.wav'' p = suffix ''.wav'' (fold_case ic (name p))"
  "name_matches ic ''*.mp3'' p = suffix ''.mp3'' (fold_case ic (name p))"
  "name_matches ic ''*.flac'' p = suffix ''.flac'' (fold_case ic (name p))"
  "name_matches ic ''*.m4a'' p = suffix ''.m4a'' (fold_case ic (name p))"
  by (simp_all add: name_matches_def fold_case_patterns fnmatch_star_literal del: fnmatch.simps)

lemma suffix_clash:
  "suffix a s \<Longrightarrow> suffix b s \<Longrightarrow> length a = length b \<Longrightarrow> a \<noteq> b \<Longrightarrow> False"
  by (auto simp: suffix_def)

lemma flac_tail: "suffix ''.flac'' s \<Longrightarrow> suffix ''flac'' s"
  by (rule suffix_ConsD)

lemma suffix_exclusive:
  "\<not> (suffix ''.wav'' s \<and> suffix ''.mp3'' s)"
  "\<not> (suffix ''.wav'' s \<and> suffix ''.flac'' s)"
  "\<not> (suffix ''.wav'' s \<and> suffix ''.m4a'' s)"
  "\<not> (suffix ''.mp3'' s \<and> suffix ''.flac'' s)"
  "\<not> (suffix ''.mp3'' s \<and> suffix ''.m4a'' s)"
  "\<not> (suffix ''.flac'' s \<and> suffix ''.m4a'' s)"
proof -
  show "\<not> (suffix ''.wav'' s \<and> suffix ''.mp3'' s)"
    using suffix_clash[of "''.wav''" s "''.mp3''"] by auto
  show "\<not> (suffix ''.wav'' s \<and> suffix ''.flac'' s)"
    using suffix_clash[of "''.wav''" s "''flac''"] flac_tail[of s] by auto
  show "\<not> (suffix ''.wav'' s \<and> suffix ''.m4a'' s)"
    using suffix_clash[of "''.wav''" s "''.m4a''"] by auto
  show "\<not> (suffix ''.mp3'' s \<and> suffix ''.flac'' s)"
    using suffix_clash[of "''.mp3''" s "''flac''"] flac_tail[of s] by auto
  show "\<not> (suffix ''.mp3'' s \<and> suffix ''.m4a'' s)"
    using suffix_clash[of "''.mp3''" s "''.m4a''"] by auto
  show "\<not> (suffix ''.flac'' s \<and> suffix ''.m4a'' s)"
    using suffix_clash[of "''.m4a''" s "''flac''"] flac_tail[of s] by auto
qed

lemma patterns_exclusive:
  "\<not> (name_matches ic ''*.wav'' p \<and> name_matches ic ''*.mp3'' p)"
  "\<not> (name_matches ic ''*.wav'' p \<and> name_matches ic ''*.flac'' p)"
  "\<not> (name_matches ic ''*.wav'' p \<and> name_matches ic ''*.m4a'' p)"
  "\<not> (name_matches ic ''*.mp3'' p \<and> name_matches ic ''*.flac'' p)"
  "\<not> (name_matches ic ''*.mp3'' p \<and> name_matches ic ''*.m4a'' p)"
  "\<not> (name_matches ic ''*.flac'' p \<and> name_matches ic ''*.m4a'' p)"
  unfolding name_matches_suffix by (rule suffix_exclusive)+

section \<open>The scan as one loop\<close>

lemma fold_concat_list: "fold f (concat xss) a = fold (fold f) xss a"
  by (induction xss arbitrary: a) simp_all

lemma scan_fold: "scan e a = fold categorize (discovered e (data_path a)) a"
  by (simp add: scan_def discovered_def fold_concat_list fold_map comp_def)

lemma data_path_scan: "data_path (scan e a) = data_path a"
proof -
  have "data_path (fold categorize ds b) = data_path b" for ds b
    by (induction ds arbitrary: b) (simp_all add: categorize_def)
  then show ?thesis by (simp add: scan_fold)
qed

lemma categorize_cases:
  "categorize p a = a\<lparr>real_files := real_files a @ [p]\<rparr> \<or>
   categorize p a = a\<lparr>fake_files := fake_files a @ [p]\<rparr>"
  by (simp add: categorize_def)

lemma categorize_count:
  "count_list (real_files (categorize d a)) p + count_list (fake_files (categorize d a)) p
   = count_list (real_files a) p + count_list (fake_files a) p + (if d = p then 1 else 0)"
  by (simp add: categorize_def)

lemma fold_categorize_count:
  "count_list (real_files (fold categorize ds a)) p + count_list (fake_files (fold categorize ds a)) p
   = count_list (real_files a) p + count_list (fake_files a) p + count_list ds p"
proof (induction ds arbitrary: a)
  case Nil
  then show ?case by simp
next
  case (Cons d ds)
  show ?case
    using Cons.IH[of "categorize d a"] categorize_count[of d a p] by simp
qed

lemma discovered_unfold:
  "discovered e root = rglob e root ''*.wav'' @ rglob e root ''*.mp3''
                       @ rglob e root ''*.flac'' @ rglob e root ''*.m4a''"
  by (simp add: discovered_def audio_extensions_def)

lemma distinct_discovered: "distinct (walk e root) \<Longrightarrow> distinct (discovered e root)"
  using patterns_exclusive[of "ignore_case e"]
  by (auto simp: discovered_unfold rglob_def)

section \<open>Order of lists\<close>

lemma before_in_set: "before xs p q \<Longrightarrow> p \<in> set xs \<and> q \<in> set xs"
  by (induction xs) auto

lemma before_append:
  "before (xs @ ys) p q = (before xs p q \<or> before ys p q \<or> (p \<in> set xs \<and> q \<in> set ys))"
  by (induction xs) (auto dest: before_in_set)

lemma before_filter: "before xs p q \<Longrightarrow> P p \<Longrightarrow> P q \<Longrightarrow> before (filter P xs) p q"
  by (induction xs) auto

lemma before_subseq:
  "subseq xs ys \<Longrightarrow> distinct ys \<Longrightarrow> before ys p q \<Longrightarrow> p \<in> set xs \<Longrightarrow> q \<in> set xs
   \<Longrightarrow> before xs p q"
proof (induction ys arbitrary: xs)
  case Nil
  then show ?case by simp
next
  case (Cons y ys)
  show ?case
  proof (cases xs)
    case Nil
    with Cons.prems show ?thesis by simp
  next
    case (Cons x xs')
    show ?thesis
    proof (cases "x = y")
      case True
      with Cons Cons.prems have sub: "subseq xs' ys" by simp
      from Cons.prems(3) consider "y = p" "q \<in> set ys" | "before ys p q" by auto
      then show ?thesis
      proof cases
        case 1
        with Cons.prems(2) have "q \<noteq> y" by auto
        with Cons.prems(5) Cons True have "q \<in> set xs'" by auto
        with 1 Cons True show ?thesis by simp
      next
        case 2
        then have "p \<in> set ys" "q \<in> set ys" by (auto dest: before_in_set)
        with Cons.prems(2) have "p \<noteq> y" "q \<noteq> y" by auto
        with Cons.prems(4,5) Cons True have "p \<in> set xs'" "q \<in> set xs'" by auto
        with Cons.IH[OF sub _ 2] Cons.prems(2) have "before xs' p q" by simp
        with Cons show ?thesis by simp
      qed
    next
      case False
      with Cons Cons.prems(1) have sub: "subseq xs ys" by simp
      then have "set xs \<subseteq> set ys" by (auto elim: list_emb_set)
      with Cons.prems(2,4) have "p \<noteq> y" by auto
      with Cons.prems(3) have "before ys p q" by auto
      with Cons.IH[OF sub _ this Cons.prems(4,5)] Cons.prems(2) show ?thesis by simp
    qed
  qed
qed

lemma fold_categorize_subseq:
  "\<exists>rs fs. real_files (fold categorize ds a) = real_files a @ rs \<and>
           fake_files (fold categorize ds a) = fake_files a @ fs \<and>
           subseq rs ds \<and> subseq fs ds"
proof (induction ds arbitrary: a)
  case Nil
  then show ?case by simp
next
  case (Cons d ds)
  from Cons.IH[of "categorize d a"] obtain rs fs where
    *: "real_files (fold categorize ds (categorize d a)) = real_files (categorize d a) @ rs"
       "fake_files (fold categorize ds (categorize d a)) = fake_files (categorize d a) @ fs"
       "subseq rs ds" "subseq fs ds" by blast
  from categorize_cases[of d a] show ?case
  proof
    assume "categorize d a = a\<lparr>real_files := real_files a @ [d]\<rparr>"
    with * have "real_files (fold categorize (d # ds) a) = real_files a @ (d # rs)"
      "fake_files (fold categorize (d # ds) a) = fake_files a @ fs"
      "subseq (d # rs) (d # ds)" "subseq fs (d # ds)" by (simp_all add: list_emb_Cons)
    then show ?thesis by blast
  next
    assume "categorize d a = a\<lparr>fake_files := fake_files a @ [d]\<rparr>"
    with * have "real_files (fold categorize (d # ds) a) = real_files a @ rs"
      "fake_files (fold categorize (d # ds) a) = fake_files a @ (d # fs)"
      "subseq rs (d # ds)" "subseq (d # fs) (d # ds)" by (simp_all add: list_emb_Cons)
    then show ?thesis by blast
  qed
qed

lemma scan_subseq:
  "subseq (real_files (scan e (init root))) (discovered e root) \<and>
   subseq (fake_files (scan e (init root))) (discovered e root)"
  using fold_categorize_subseq[of "discovered e root" "init root"]
  by (auto simp: scan_fold init_def)

lemma distinct_iff_count: "distinct xs = (\<forall>x. count_list xs x \<le> 1)"
proof (induction xs)
  case Nil
  then show ?case by simp
next
  case (Cons a xs)
  have "(\<forall>x. count_list (a # xs) x \<le> 1) = (count_list xs a = 0 \<and> (\<forall>x. count_list xs x \<le> 1))"
    by (auto simp: le_Suc_eq)
  with Cons show ?case by (simp add: count_list_0_iff)
qed


section \<open>The scan: every file in exactly one sequence\<close>

text \<open>
  C1. Each pass through the loop body appends the file to exactly one of \<open>real_files\<close>
  and \<open>fake_files\<close> and leaves the other as it is. After the scan of a fresh analyzer,
  every path occurs in the two sequences together as often as the scan discovered it, the
  two sequences together hold exactly the discovered files, and when the walk lists no
  entry twice, no file is in both sequences and none is twice in one.
\<close>

theorem classification_total:
  "(\<forall>p a. (real_files (categorize p a) = real_files a @ [p] \<and>
            fake_files (categorize p a) = fake_files a)
           \<noteq> (fake_files (categorize p a) = fake_files a @ [p] \<and>
              real_files (categorize p a) = real_files a)) \<and>
   (\<forall>p. count_list (real_files (scan e (init root))) p
        + count_list (fake_files (scan e (init root))) p
        = count_list (discovered e root) p) \<and>
   set (real_files (scan e (init root))) \<union> set (fake_files (scan e (init root)))
     = set (discovered e root) \<and>
   (distinct (walk e root) \<longrightarrow>
      set (real_files (scan e (init root))) \<inter> set (fake_files (scan e (init root))) = {} \<and>
      distinct (real_files (scan e (init root))) \<and>
      distinct (fake_files (scan e (init root))))"
proof -
  let ?r = "real_files (scan e (init root))" and ?f = "fake_files (scan e (init root))"
  let ?d = "discovered e root"
  have step: "\<forall>p a. (real_files (categorize p a) = real_files a @ [p] \<and>
            fake_files (categorize p a) = fake_files a)
           \<noteq> (fake_files (categorize p a) = fake_files a @ [p] \<and>
              real_files (categorize p a) = real_files a)"
    by (simp add: categorize_def)
  have cnt: "count_list ?r p + count_list ?f p = count_list ?d p" for p
    using fold_categorize_count[of "discovered e root" "init root" p]
    by (simp add: scan_fold init_def)
  have un: "set ?r \<union> set ?f = set ?d"
  proof (rule set_eqI)
    fix p
    from cnt[of p] show "p \<in> set ?r \<union> set ?f \<longleftrightarrow> p \<in> set ?d"
      using count_list_0_iff[of ?r p] count_list_0_iff[of ?f p] count_list_0_iff[of ?d p]
      by auto
  qed
  have dis: "set ?r \<inter> set ?f = {} \<and> distinct ?r \<and> distinct ?f" if "distinct (walk e root)"
  proof -
    from that have d: "distinct ?d" by (rule distinct_discovered)
    have le: "count_list ?r p + count_list ?f p \<le> 1" for p
      using cnt[of p] d by (simp add: distinct_iff_count)
    have "distinct ?r" unfolding distinct_iff_count
    proof (intro allI)
      fix p from le[of p] show "count_list ?r p \<le> 1" by simp
    qed
    moreover have "distinct ?f" unfolding distinct_iff_count
    proof (intro allI)
      fix p from le[of p] show "count_list ?f p \<le> 1" by simp
    qed
    moreover have "set ?r \<inter> set ?f = {}"
    proof (rule ccontr)
      assume "set ?r \<inter> set ?f \<noteq> {}"
      then obtain p where "p \<in> set ?r" "p \<in> set ?f" by auto
      then have "count_list ?r p > 0" "count_list ?f p > 0"
        using count_list_0_iff[of ?r p] count_list_0_iff[of ?f p] by auto
      with le[of p] show False by simp
    qed
    ultimately show ?thesis by simp
  qed
  from step cnt un dis show ?thesis by blast
qed

theorem classification_total_witness:
  "distinct (walk demo_env ''/data'') \<and>
   set (real_files (scan demo_env (init ''/data'')))
     \<inter> set (fake_files (scan demo_env (init ''/data''))) = {} \<and>
   distinct (real_files (scan demo_env (init ''/data''))) \<and>
   distinct (fake_files (scan demo_env (init ''/data'')))"
proof -
  have h: "distinct (walk demo_env ''/data'')" by code_simp
  with classification_total[of demo_env "''/data''"] show ?thesis by blast
qed

section \<open>The scan: files without a keyword\<close>

text \<open>
  C2. A file whose lower-cased name and lower-cased full path hold none of the eight
  keywords is appended to \<open>real_files\<close> when \<open>real_files\<close> is not longer than
  \<open>fake_files\<close>, and to \<open>fake_files\<close> otherwise. When a fresh analyzer discovers two
  such files and nothing else, the first ends in \<open>real_files\<close> and the second in
  \<open>fake_files\<close>.
\<close>

theorem unmatched_goes_to_shorter:
  "(\<not> any_keyword real_keywords p \<and> \<not> any_keyword fake_keywords p \<longrightarrow>
      categorize p a =
        (if length (real_files a) \<le> length (fake_files a)
         then a\<lparr>real_files := real_files a @ [p]\<rparr>
         else a\<lparr>fake_files := fake_files a @ [p]\<rparr>)) \<and>
   (discovered e root = [p, q] \<and>
    \<not> any_keyword real_keywords p \<and> \<not> any_keyword fake_keywords p \<and>
    \<not> any_keyword real_keywords q \<and> \<not> any_keyword fake_keywords q \<longrightarrow>
      real_files (scan e (init root)) = [p] \<and> fake_files (scan e (init root)) = [q])"
  by (simp add: categorize_def scan_fold init_def)

theorem unmatched_goes_to_shorter_witness:
  "discovered plain_env ''/data'' =
     [child ''/data'' CHR ''/'' ''clip_1.wav'', child ''/data'' CHR ''/'' ''clip_2.wav''] \<and>
   real_files (scan plain_env (init ''/data'')) = [child ''/data'' CHR ''/'' ''clip_1.wav''] \<and>
   fake_files (scan plain_env (init ''/data'')) = [child ''/data'' CHR ''/'' ''clip_2.wav'']"
proof -
  let ?p = "child ''/data'' CHR ''/'' ''clip_1.wav''" and ?q = "child ''/data'' CHR ''/'' ''clip_2.wav''"
  have d: "discovered plain_env ''/data'' = [?p, ?q]" by code_simp
  have k: "\<not> any_keyword real_keywords ?p" "\<not> any_keyword fake_keywords ?p"
    "\<not> any_keyword real_keywords ?q" "\<not> any_keyword fake_keywords ?q" by code_simp+
  from unmatched_goes_to_shorter[of ?p _ plain_env "''/data''" ?q] d k show ?thesis by blast
qed

section \<open>The scan: a real keyword wins\<close>

lemma fold_categorize_real_keyword:
  "any_keyword real_keywords p \<Longrightarrow> p \<in> set ds \<or> p \<in> set (real_files a) \<Longrightarrow> 
   p \<in> set (real_files (fold categorize ds a))"
proof (induction ds arbitrary: a)
  case Nil
  then show ?case by simp
next
  case (Cons d ds)
  have "p \<in> set ds \<or> p \<in> set (real_files (categorize d a))"
    using Cons.prems by (auto simp: categorize_def)
  with Cons.IH[of "categorize d a"] Cons.prems(1) show ?case by simp
qed

lemma fold_categorize_fake_no_real_keyword:
  "any_keyword real_keywords p \<Longrightarrow> p \<notin> set (fake_files a) \<Longrightarrow>
   p \<notin> set (fake_files (fold categorize ds a))"
proof (induction ds arbitrary: a)
  case Nil
  then show ?case by simp
next
  case (Cons d ds)
  have "p \<notin> set (fake_files (categorize d a))"
    using Cons.prems by (auto simp: categorize_def)
  with Cons.IH[of "categorize d a"] Cons.prems(1) show ?case by simp
qed

text \<open>
  C9. A file that matches a real keyword and a fake keyword is appended to
  \<open>real_files\<close>; after the scan of a fresh analyzer every such discovered file is in
  \<open>real_files\<close> and not in \<open>fake_files\<close>.
\<close>

theorem real_keyword_first:
  "any_keyword real_keywords p \<and> any_keyword fake_keywords p \<longrightarrow>
     categorize p a = a\<lparr>real_files := real_files a @ [p]\<rparr> \<and>
     (p \<in> set (discovered e root) \<longrightarrow>
        p \<in> set (real_files (scan e (init root))) \<and>
        p \<notin> set (fake_files (scan e (init root))))"
  using fold_categorize_real_keyword[of p "discovered e root" "init root"]
        fold_categorize_fake_no_real_keyword[of p "init root" "discovered e root"]
  by (simp add: categorize_def scan_fold) (simp add: init_def)

theorem real_keyword_first_witness:
  "any_keyword real_keywords mixed_path \<and> any_keyword fake_keywords mixed_path \<and>
   mixed_path \<in> set (discovered demo_env ''/data'') \<and>
   mixed_path \<in> set (real_files (scan demo_env (init ''/data''))) \<and>
   mixed_path \<notin> set (fake_files (scan demo_env (init ''/data'')))"
proof -
  have k: "any_keyword real_keywords mixed_path" "any_keyword fake_keywords mixed_path"
    by code_simp+
  have d: "mixed_path \<in> set (discovered demo_env ''/data'')" by code_simp
  from real_keyword_first[of mixed_path _ demo_env "''/data''"] k d show ?thesis by blast
qed

section \<open>The scan: order of the sequences\<close>

lemma before_discovered:
  assumes "ext \<in> set audio_extensions" "before (rglob e root ext) p q"
  shows "before (discovered e root) p q"
  using assms by (auto simp: discovered_unfold audio_extensions_def before_append)

text \<open>
  C8 as stated fails: the outer loop runs over the extensions, so a \<open>wav\<close> file is
  appended before every \<open>mp3\<close> file, also before one that the walk meets earlier. Here
  the walk meets \<open>real_b.mp3\<close> before \<open>real_a.wav\<close>, both end in \<open>real_files\<close>, and
  \<open>real_b.mp3\<close> is not before \<open>real_a.wav\<close> there.
\<close>

theorem traversal_order_counterexample:
  "before (walk order_env ''/data'')
      (child ''/data'' CHR ''/'' ''real_b.mp3'') (child ''/data'' CHR ''/'' ''real_a.wav'') \<and>
   child ''/data'' CHR ''/'' ''real_b.mp3'' \<in> set (real_files (scan order_env (init ''/data''))) \<and>
   child ''/data'' CHR ''/'' ''real_a.wav'' \<in> set (real_files (scan order_env (init ''/data''))) \<and>
   \<not> before (real_files (scan order_env (init ''/data'')))
      (child ''/data'' CHR ''/'' ''real_b.mp3'') (child ''/data'' CHR ''/'' ''real_a.wav'')"
  by code_simp

text \<open>
  C8, amended. Each of the two sequences is a subsequence of the discovery order (the
  \<open>*.wav\<close> entries in walk order, then the \<open>*.mp3\<close>, \<open>*.flac\<close> and \<open>*.m4a\<close> entries).
  When the walk lists no entry twice: of two files that end in the same sequence, the one
  discovered earlier is earlier in that sequence; so of two files that match the same
  extension pattern and end in the same sequence, the one the walk meets earlier is
  earlier in that sequence.
\<close>

theorem order_within_extension:
  "subseq (real_files (scan e (init root))) (discovered e root) \<and>
   subseq (fake_files (scan e (init root))) (discovered e root) \<and>
   (distinct (walk e root) \<longrightarrow>
      (\<forall>p q. before (discovered e root) p q \<longrightarrow>
           (p \<in> set (real_files (scan e (init root))) \<and>
            q \<in> set (real_files (scan e (init root))) \<longrightarrow>
              before (real_files (scan e (init root))) p q) \<and>
           (p \<in> set (fake_files (scan e (init root))) \<and>
            q \<in> set (fake_files (scan e (init root))) \<longrightarrow>
              before (fake_files (scan e (init root))) p q)) \<and>
      (\<forall>ext \<in> set audio_extensions. \<forall>p q.
         name_matches (ignore_case e) ext p \<and> name_matches (ignore_case e) ext q \<and>
         before (walk e root) p q \<longrightarrow>
           (p \<in> set (real_files (scan e (init root))) \<and>
            q \<in> set (real_files (scan e (init root))) \<longrightarrow>
              before (real_files (scan e (init root))) p q) \<and>
           (p \<in> set (fake_files (scan e (init root))) \<and>
            q \<in> set (fake_files (scan e (init root))) \<longrightarrow>
              before (fake_files (scan e (init root))) p q)))"
proof -
  let ?r = "real_files (scan e (init root))" and ?f = "fake_files (scan e (init root))"
  let ?d = "discovered e root"
  have sub: "subseq ?r ?d" "subseq ?f ?d" using scan_subseq[of e root] by simp_all
  have disc: "(p \<in> set ?r \<and> q \<in> set ?r \<longrightarrow> before ?r p q) \<and>
              (p \<in> set ?f \<and> q \<in> set ?f \<longrightarrow> before ?f p q)"
    if dw: "distinct (walk e root)" and bd: "before ?d p q" for p q
  proof -
    from dw have dd: "distinct ?d" by (rule distinct_discovered)
    show ?thesis
      using before_subseq[OF sub(1) dd bd] before_subseq[OF sub(2) dd bd] by blast
  qed
  have pair: "(p \<in> set ?r \<and> q \<in> set ?r \<longrightarrow> before ?r p q) \<and>
              (p \<in> set ?f \<and> q \<in> set ?f \<longrightarrow> before ?f p q)"
    if dw: "distinct (walk e root)" and ext: "ext \<in> set audio_extensions"
      and m: "name_matches (ignore_case e) ext p" "name_matches (ignore_case e) ext q"
      and b: "before (walk e root) p q" for ext p q
  proof -
    have "before (rglob e root ext) p q"
      unfolding rglob_def using b m by (rule before_filter)
    with ext have "before ?d p q" by (rule before_discovered)
    with dw show ?thesis by (rule disc)
  qed
  from sub disc pair show ?thesis by blast
qed

theorem order_within_extension_witness:
  "distinct (walk demo_env ''/data'') \<and> ''*.wav'' \<in> set audio_extensions \<and>
   name_matches (ignore_case demo_env) ''*.wav'' (child ''/data'' CHR ''/'' ''real_a.wav'') \<and>
   name_matches (ignore_case demo_env) ''*.wav'' (child ''/data'' CHR ''/'' ''clip_d.wav'') \<and>
   before (walk demo_env ''/data'')
      (child ''/data'' CHR ''/'' ''real_a.wav'') (child ''/data'' CHR ''/'' ''clip_d.wav'') \<and>
   child ''/data'' CHR ''/'' ''real_a.wav'' \<in> set (real_files (scan demo_env (init ''/data''))) \<and>
   child ''/data'' CHR ''/'' ''clip_d.wav'' \<in> set (real_files (scan demo_env (init ''/data''))) \<and>
   before (real_files (scan demo_env (init ''/data'')))
      (child ''/data'' CHR ''/'' ''real_a.wav'') (child ''/data'' CHR ''/'' ''clip_d.wav'')"
proof -
  let ?p = "child ''/data'' CHR ''/'' ''real_a.wav''" and ?q = "child ''/data'' CHR ''/'' ''clip_d.wav''"
  have h: "distinct (walk demo_env ''/data'')" "''*.wav'' \<in> set audio_extensions"
    "name_matches (ignore_case demo_env) ''*.wav'' ?p"
    "name_matches (ignore_case demo_env) ''*.wav'' ?q"
    "before (walk demo_env ''/data'') ?p ?q"
    "?p \<in> set (real_files (scan demo_env (init ''/data'')))"
    "?q \<in> set (real_files (scan demo_env (init ''/data'')))"
    by code_simp+
  from order_within_extension[of demo_env "''/data''"] h show ?thesis by blast
qed

section \<open>The scan: \<open>real_sample.wav\<close> and \<open>fake_sample.wav\<close>\<close>

lemma sublist_sep:
  assumes "c \<notin> set kw" "kw \<noteq> []"
  shows "sublist kw (A @ c # B) = (sublist kw A \<or> sublist kw B)"
proof
  assume "sublist kw (A @ c # B)"
  then obtain ps ss where eq: "A @ c # B = ps @ kw @ ss" by (auto simp: sublist_def)
  then consider us where "A = ps @ us" "us @ c # B = kw @ ss"
    | us where "A @ us = ps" "c # B = us @ kw @ ss"
    by (auto simp: append_eq_append_conv2)
  then show "sublist kw A \<or> sublist kw B"
  proof cases
    case 1
    from 1(2) consider vs where "us = kw @ vs" | vs where "us @ vs = kw" "c # B = vs @ ss"
      by (auto simp: append_eq_append_conv2)
    then show ?thesis
    proof cases
      case 1
      with \<open>A = ps @ us\<close> show ?thesis by simp
    next
      case 2
      show ?thesis
      proof (cases vs)
        case Nil
        with 2 \<open>A = ps @ us\<close> show ?thesis by simp
      next
        case (Cons v vs')
        with 2 have "c \<in> set kw" by auto
        with assms show ?thesis by simp
      qed
    qed
  next
    case 2
    show ?thesis
    proof (cases us)
      case Nil
      with 2 assms have False by (cases kw) auto
      then show ?thesis ..
    next
      case (Cons u us')
      with 2 have "B = us' @ kw @ ss" by simp
      then show ?thesis by simp
    qed
  qed
next
  assume "sublist kw A \<or> sublist kw B"
  then show "sublist kw (A @ c # B)"
    by (metis sublist_append sublist_Cons_right)
qed

lemma lower_child:
  "lower (str (child root sep nm)) = lower root @ lower_char sep # lower nm"
  by (simp add: child_def lower_def)

lemma name_child: "name (child root sep nm) = nm"
  by (simp add: child_def)

lemma any_keyword_child:
  assumes "\<forall>kw \<in> set kws. lower_char sep \<notin> set kw \<and> kw \<noteq> []"
  shows "any_keyword kws (child root sep nm) =
         list_ex (\<lambda>kw. str_in kw (lower root) \<or> str_in kw (lower nm)) kws"
  using assms
  by (auto simp: any_keyword_def Let_def list_ex_iff lower_child name_child str_in_sublist sublist_sep)

lemma sep_not_in_keywords:
  "sep = CHR ''/'' \<or> sep = CHR 0x5C \<Longrightarrow>
   \<forall>kw \<in> set (real_keywords @ fake_keywords). lower_char sep \<notin> set kw \<and> kw \<noteq> []"
  by (erule disjE; hypsubst; code_simp)

lemma sample_names:
  "lower ''real_sample.wav'' = ''real_sample.wav''"
  "lower ''fake_sample.wav'' = ''fake_sample.wav''"
  "str_in ''real'' ''real_sample.wav''"
  "str_in ''fake'' ''fake_sample.wav''"
  "\<not> list_ex (\<lambda>kw. str_in kw ''fake_sample.wav'') real_keywords"
  by code_simp+

lemma capital_names:
  "lower ''REAL_Sample.WAV'' = ''real_sample.wav''"
  "lower ''Fake_SAMPLE.wav'' = ''fake_sample.wav''"
  by code_simp+

lemma sample_matches:
  "name_matches ic ''*.wav'' (child root sep ''real_sample.wav'')"
  "name_matches ic ''*.wav'' (child root sep ''fake_sample.wav'')"
  "\<not> name_matches ic ''*.mp3'' (child root sep ''real_sample.wav'')"
  "\<not> name_matches ic ''*.mp3'' (child root sep ''fake_sample.wav'')"
  "\<not> name_matches ic ''*.flac'' (child root sep ''real_sample.wav'')"
  "\<not> name_matches ic ''*.flac'' (child root sep ''fake_sample.wav'')"
  "\<not> name_matches ic ''*.m4a'' (child root sep ''real_sample.wav'')"
  "\<not> name_matches ic ''*.m4a'' (child root sep ''fake_sample.wav'')"
  by (simp_all add: name_matches_suffix name_child fold_case_def sample_names suffix_def)

lemma capital_matches:
  "name_matches True ''*.wav'' (child root sep ''REAL_Sample.WAV'')"
  "name_matches True ''*.wav'' (child root sep ''Fake_SAMPLE.wav'')"
  "\<not> name_matches True ''*.mp3'' (child root sep ''REAL_Sample.WAV'')"
  "\<not> name_matches True ''*.mp3'' (child root sep ''Fake_SAMPLE.wav'')"
  "\<not> name_matches True ''*.flac'' (child root sep ''REAL_Sample.WAV'')"
  "\<not> name_matches True ''*.flac'' (child root sep ''Fake_SAMPLE.wav'')"
  "\<not> name_matches True ''*.m4a'' (child root sep ''REAL_Sample.WAV'')"
  "\<not> name_matches True ''*.m4a'' (child root sep ''Fake_SAMPLE.wav'')"
  by (simp_all add: name_matches_suffix name_child fold_case_def capital_names suffix_def)

lemma real_sample_is_real:
  "lower nm = ''real_sample.wav'' \<Longrightarrow> any_keyword real_keywords (child root sep nm)"
  by (simp add: any_keyword_def Let_def name_child sample_names real_keywords_def)

lemma fake_sample_is_fake:
  "lower nm = ''fake_sample.wav'' \<Longrightarrow> any_keyword fake_keywords (child root sep nm)"
  by (simp add: any_keyword_def Let_def name_child sample_names fake_keywords_def)

lemma fake_sample_not_real:
  assumes "\<not> list_ex (\<lambda>kw. str_in kw (lower root)) real_keywords"
    and "sep = CHR ''/'' \<or> sep = CHR 0x5C"
    and "lower nm = ''fake_sample.wav''"
  shows "\<not> any_keyword real_keywords (child root sep nm)"
proof -
  from sep_not_in_keywords[OF assms(2)]
  have "\<forall>kw \<in> set real_keywords. lower_char sep \<notin> set kw \<and> kw \<noteq> []" by simp
  then have "any_keyword real_keywords (child root sep nm) =
      list_ex (\<lambda>kw. str_in kw (lower root) \<or> str_in kw (lower nm)) real_keywords"
    by (rule any_keyword_child)
  with assms(1) sample_names(5) show ?thesis
    by (auto simp: list_ex_iff assms(3))
qed

lemma keyword_in_root:
  assumes "list_ex (\<lambda>kw. str_in kw (lower root)) kws"
  shows "any_keyword kws (child root sep nm)"
proof -
  from assms obtain kw where kw: "kw \<in> set kws" "sublist kw (lower root)"
    by (auto simp: list_ex_iff str_in_sublist)
  from kw(2) obtain ps ss where "lower root = ps @ kw @ ss"
    by (auto simp: sublist_def)
  then have "lower root @ lower_char sep # lower nm = ps @ kw @ (ss @ lower_char sep # lower nm)"
    by simp
  then have "sublist kw (lower root @ lower_char sep # lower nm)"
    unfolding sublist_def by blast
  with kw(1) show ?thesis
    by (auto simp: any_keyword_def Let_def list_ex_iff lower_child str_in_sublist)
qed

lemma scan_two_samples:
  assumes "\<not> list_ex (\<lambda>kw. str_in kw (lower root)) real_keywords"
    and "sep = CHR ''/'' \<or> sep = CHR 0x5C"
    and "lower nr = ''real_sample.wav''" "lower nf = ''fake_sample.wav''"
    and "discovered e root = [child root sep nr, child root sep nf]
         \<or> discovered e root = [child root sep nf, child root sep nr]"
  shows "real_files (scan e (init root)) = [child root sep nr] \<and>
         fake_files (scan e (init root)) = [child root sep nf]"
proof -
  note k = real_sample_is_real[OF assms(3), of root sep] fake_sample_is_fake[OF assms(4), of root sep]
    fake_sample_not_real[OF assms(1,2,4)]
  from assms(5) show ?thesis
  proof
    assume "discovered e root = [child root sep nr, child root sep nf]"
    with k show ?thesis by (simp add: scan_fold init_def categorize_def)
  next
    assume "discovered e root = [child root sep nf, child root sep nr]"
    with k show ?thesis by (simp add: scan_fold init_def categorize_def)
  qed
qed

lemma scan_under_real_root:
  assumes "list_ex (\<lambda>kw. str_in kw (lower root)) real_keywords"
    and "discovered e root = [child root sep n1, child root sep n2]"
  shows "real_files (scan e (init root)) = [child root sep n1, child root sep n2] \<and>
         fake_files (scan e (init root)) = []"
  using assms(2) keyword_in_root[OF assms(1), of sep n1] keyword_in_root[OF assms(1), of sep n2]
  by (simp add: scan_fold init_def categorize_def)

text \<open>
  C3. The separator is \<open>/\<close> or the backslash. When the lower-cased root path holds no
  real keyword (a fake keyword there does no harm):
  \<^item> a root folder that holds exactly \<open>real_sample.wav\<close> and \<open>fake_sample.wav\<close>, met in
    either order, leaves \<open>real_sample.wav\<close> alone in \<open>real_files\<close> and \<open>fake_sample.wav\<close>
    alone in \<open>fake_files\<close>;
  \<^item> the match ignores case: on a platform that globs case-insensitively the same holds
    for the two files under the names \<open>REAL_Sample.WAV\<close> and \<open>Fake_SAMPLE.wav\<close>, and on
    every platform for two discovered files whose lower-cased names are
    \<open>real_sample.wav\<close> and \<open>fake_sample.wav\<close>.

  The match is also against the full path: when the lower-cased root path does hold a
  real keyword, both files end in \<open>real_files\<close>, in walk order, and \<open>fake_files\<close> stays
  empty.
\<close>

theorem literal_keyword_match:
  assumes "sep = CHR ''/'' \<or> sep = CHR 0x5C"
  shows
    "(\<not> list_ex (\<lambda>kw. str_in kw (lower root)) real_keywords \<and>
      (walk e root = [child root sep ''real_sample.wav'', child root sep ''fake_sample.wav''] \<or>
       walk e root = [child root sep ''fake_sample.wav'', child root sep ''real_sample.wav'']) \<longrightarrow>
        real_files (scan e (init root)) = [child root sep ''real_sample.wav''] \<and>
        fake_files (scan e (init root)) = [child root sep ''fake_sample.wav'']) \<and>
     (\<not> list_ex (\<lambda>kw. str_in kw (lower root)) real_keywords \<and> ignore_case e \<and>
      (walk e root = [child root sep ''REAL_Sample.WAV'', child root sep ''Fake_SAMPLE.wav''] \<or>
       walk e root = [child root sep ''Fake_SAMPLE.wav'', child root sep ''REAL_Sample.WAV'']) \<longrightarrow>
        real_files (scan e (init root)) = [child root sep ''REAL_Sample.WAV''] \<and>
        fake_files (scan e (init root)) = [child root sep ''Fake_SAMPLE.wav'']) \<and>
     (\<not> list_ex (\<lambda>kw. str_in kw (lower root)) real_keywords \<and>
      lower nr = ''real_sample.wav'' \<and> lower nf = ''fake_sample.wav'' \<and>
      (discovered e root = [child root sep nr, child root sep nf] \<or>
       discovered e root = [child root sep nf, child root sep nr]) \<longrightarrow>
        real_files (scan e (init root)) = [child root sep nr] \<and>
        fake_files (scan e (init root)) = [child root sep nf]) \<and>
     (list_ex (\<lambda>kw. str_in kw (lower root)) real_keywords \<and>
      (walk e root = [child root sep ''real_sample.wav'', child root sep ''fake_sample.wav''] \<or>
       walk e root = [child root sep ''fake_sample.wav'', child root sep ''real_sample.wav'']) \<longrightarrow>
        real_files (scan e (init root)) = walk e root \<and>
        fake_files (scan e (init root)) = [])"
proof -
  let ?R = "child root sep ''real_sample.wav''" and ?F = "child root sep ''fake_sample.wav''"
  let ?R' = "child root sep ''REAL_Sample.WAV''" and ?F' = "child root sep ''Fake_SAMPLE.wav''"
  have d: "discovered e root = walk e root"
    if "walk e root = [?R, ?F] \<or> walk e root = [?F, ?R]"
    using that by (auto simp: discovered_unfold rglob_def sample_matches)
  have d': "discovered e root = walk e root"
    if "ignore_case e" "walk e root = [?R', ?F'] \<or> walk e root = [?F', ?R']"
    using that by (auto simp: discovered_unfold rglob_def capital_matches)
  have one: "real_files (scan e (init root)) = [?R] \<and> fake_files (scan e (init root)) = [?F]"
    if k: "\<not> list_ex (\<lambda>kw. str_in kw (lower root)) real_keywords"
      and w: "walk e root = [?R, ?F] \<or> walk e root = [?F, ?R]"
  proof -
    from w d[OF w] have "discovered e root = [?R, ?F] \<or> discovered e root = [?F, ?R]" by simp
    with k assms show ?thesis by (intro scan_two_samples sample_names)
  qed
  have two: "real_files (scan e (init root)) = [?R'] \<and> fake_files (scan e (init root)) = [?F']"
    if k: "\<not> list_ex (\<lambda>kw. str_in kw (lower root)) real_keywords" and ic: "ignore_case e"
      and w: "walk e root = [?R', ?F'] \<or> walk e root = [?F', ?R']"
  proof -
    from w d'[OF ic w] have "discovered e root = [?R', ?F'] \<or> discovered e root = [?F', ?R']"
      by simp
    with k assms show ?thesis by (intro scan_two_samples capital_names)
  qed
  have three: "real_files (scan e (init root)) = [child root sep nr] \<and>
               fake_files (scan e (init root)) = [child root sep nf]"
    if "\<not> list_ex (\<lambda>kw. str_in kw (lower root)) real_keywords"
      "lower nr = ''real_sample.wav''" "lower nf = ''fake_sample.wav''"
      "discovered e root = [child root sep nr, child root sep nf] \<or>
       discovered e root = [child root sep nf, child root sep nr]"
    using that(1) assms that(2-4) by (rule scan_two_samples)
  have four: "real_files (scan e (init root)) = walk e root \<and> fake_files (scan e (init root)) = []"
    if k: "list_ex (\<lambda>kw. str_in kw (lower root)) real_keywords"
      and w: "walk e root = [?R, ?F] \<or> walk e root = [?F, ?R]"
    using w
  proof
    assume a: "walk e root = [?R, ?F]"
    with d[OF w] have "discovered e root = [?R, ?F]" by simp
    from scan_under_real_root[OF k this] a show ?thesis by simp
  next
    assume a: "walk e root = [?F, ?R]"
    with d[OF w] have "discovered e root = [?F, ?R]" by simp
    from scan_under_real_root[OF k this] a show ?thesis by simp
  qed
  from one two three four show ?thesis by blast
qed

theorem literal_keyword_match_witness:
  "\<not> list_ex (\<lambda>kw. str_in kw (lower DATASET_PATH)) real_keywords \<and>
   walk windows_env DATASET_PATH =
     [child DATASET_PATH (CHR 0x5C) ''fake_sample.wav'',
      child DATASET_PATH (CHR 0x5C) ''real_sample.wav''] \<and>
   real_files (scan windows_env (init DATASET_PATH))
     = [child DATASET_PATH (CHR 0x5C) ''real_sample.wav''] \<and>
   fake_files (scan windows_env (init DATASET_PATH))
     = [child DATASET_PATH (CHR 0x5C) ''fake_sample.wav''] \<and>
   ignore_case capitals_env \<and>
   walk capitals_env DATASET_PATH =
     [child DATASET_PATH (CHR 0x5C) ''Fake_SAMPLE.wav'',
      child DATASET_PATH (CHR 0x5C) ''REAL_Sample.WAV''] \<and>
   real_files (scan capitals_env (init DATASET_PATH))
     = [child DATASET_PATH (CHR 0x5C) ''REAL_Sample.WAV''] \<and>
   fake_files (scan capitals_env (init DATASET_PATH))
     = [child DATASET_PATH (CHR 0x5C) ''Fake_SAMPLE.wav''] \<and>
   list_ex (\<lambda>kw. str_in kw (lower ''/Data/ORIGINAL'')) real_keywords \<and>
   walk samples_env ''/Data/ORIGINAL'' =
     [child ''/Data/ORIGINAL'' CHR ''/'' ''fake_sample.wav'',
      child ''/Data/ORIGINAL'' CHR ''/'' ''real_sample.wav''] \<and>
   real_files (scan samples_env (init ''/Data/ORIGINAL'')) = walk samples_env ''/Data/ORIGINAL'' \<and>
   fake_files (scan samples_env (init ''/Data/ORIGINAL'')) = []"
proof -
  have bs: "CHR 0x5C = CHR ''/'' \<or> CHR 0x5C = CHR 0x5C" by simp
  have sl: "CHR ''/'' = CHR ''/'' \<or> CHR ''/'' = CHR 0x5C" by simp
  have k: "\<not> list_ex (\<lambda>kw. str_in kw (lower DATASET_PATH)) real_keywords" by code_simp
  have w1: "walk windows_env DATASET_PATH =
     [child DATASET_PATH (CHR 0x5C) ''fake_sample.wav'',
      child DATASET_PATH (CHR 0x5C) ''real_sample.wav'']"
    by (simp add: windows_env_def)
  have ic: "ignore_case capitals_env" by (simp add: capitals_env_def)
  have w2: "walk capitals_env DATASET_PATH =
     [child DATASET_PATH (CHR 0x5C) ''Fake_SAMPLE.wav'',
      child DATASET_PATH (CHR 0x5C) ''REAL_Sample.WAV'']"
    by (simp add: capitals_env_def)
  have k3: "list_ex (\<lambda>kw. str_in kw (lower ''/Data/ORIGINAL'')) real_keywords" by code_simp
  have w3: "walk samples_env ''/Data/ORIGINAL'' =
     [child ''/Data/ORIGINAL'' CHR ''/'' ''fake_sample.wav'',
      child ''/Data/ORIGINAL'' CHR ''/'' ''real_sample.wav'']"
    by (simp add: samples_env_def)
  note t1 = literal_keyword_match[OF bs, where root = DATASET_PATH and e = windows_env,
      THEN conjunct1, rule_format, OF conjI[OF k disjI2[OF w1]]]
  note t2 = literal_keyword_match[OF bs, where root = DATASET_PATH and e = capitals_env,
      THEN conjunct2, THEN conjunct1, rule_format, OF conjI[OF k conjI[OF ic disjI2[OF w2]]]]
  note t3 = literal_keyword_match[OF sl, where root = "''/Data/ORIGINAL''" and e = samples_env,
      THEN conjunct2, THEN conjunct2, THEN conjunct2, rule_format, OF conjI[OF k3 disjI2[OF w3]]]
  note r1 = t1[THEN conjunct1] and f1 = t1[THEN conjunct2]
  note r2 = t2[THEN conjunct1] and f2 = t2[THEN conjunct2]
  note r3 = t3[THEN conjunct1] and f3 = t3[THEN conjunct2]
  from k w1 r1 f1 ic w2 r2 f2 k3 w3 r3 f3 show ?thesis by (intro conjI) assumption+
qed

section \<open>The program: no audio file\<close>

lemma scan_nothing: "discovered e root = [] \<Longrightarrow> scan e (init root) = init root"
  by (simp add: scan_fold init_def)

lemma scan_empty_iff:
  "(real_files (scan e (init root)) = [] \<and> fake_files (scan e (init root)) = [])
   = (discovered e root = [])"
proof -
  have "length (real_files (fold categorize ds a)) + length (fake_files (fold categorize ds a))
        = length (real_files a) + length (fake_files a) + length ds" for ds a
  proof (induction ds arbitrary: a)
    case Nil
    then show ?case by simp
  next
    case (Cons d ds)
    have "length (real_files (categorize d a)) + length (fake_files (categorize d a))
          = length (real_files a) + length (fake_files a) + 1"
      by (simp add: categorize_def)
    with Cons[of "categorize d a"] show ?case by simp
  qed
  from this[of "discovered e root" "init root"]
  have "length (real_files (scan e (init root))) + length (fake_files (scan e (init root)))
        = length (discovered e root)"
    by (simp add: scan_fold init_def)
  then show ?thesis by (metis add_is_0 length_0_conv)
qed

text \<open>
  C4. \<open>find_audio_files\<close> on a fresh analyzer returns \<open>True\<close> exactly when the scan
  discovered something. When it discovered nothing, both sequences are empty, the line
  about missing audio files is printed and \<open>False\<close> is returned; \<open>main\<close> then returns at
  once: the console holds the banner and the four lines of the scan, no folder was made
  and no PDF was saved, whatever the environment would have answered to \<open>mkdir\<close>,
  \<open>load\<close> or \<open>savefig\<close>.
\<close>

theorem no_files_no_output:
  "fst (find_audio_files e (init root) s) = (discovered e root \<noteq> []) \<and>
   (discovered e root = [] \<longrightarrow>
      find_audio_files e (init root) s =
        (False, init root,
         s\<lparr>console := console s @ [Searching, Found_real 0, Found_fake 0, No_audio_files]\<rparr>)) \<and>
   (discovered e DATASET_PATH = [] \<longrightarrow>
      main e = Returned \<lparr>console = [Banner, Searching, Found_real 0, Found_fake 0, No_audio_files],
                         made = [], pdfs = []\<rparr>)"
proof -
  have a: "fst (find_audio_files e (init root) s) = (discovered e root \<noteq> [])"
    using scan_empty_iff[of e root] by (simp add: find_audio_files_def Let_def)
  have b: "find_audio_files e (init root) s =
        (False, init root,
         s\<lparr>console := console s @ [Searching, Found_real 0, Found_fake 0, No_audio_files]\<rparr>)"
    if "discovered e root = []" for root and s :: "'a io"
    using scan_nothing[OF that] by (simp add: find_audio_files_def Let_def print_def init_def)
  have c: "main e = Returned \<lparr>console = [Banner, Searching, Found_real 0, Found_fake 0, No_audio_files],
                         made = [], pdfs = []\<rparr>" if "discovered e DATASET_PATH = []"
    using b[OF that] by (simp add: main_def print_def)
  from a b c show ?thesis by blast
qed

theorem no_files_no_output_witness:
  "discovered notes_env DATASET_PATH = [] \<and>
   main notes_env = Returned \<lparr>console = [Banner, Searching, Found_real 0, Found_fake 0, No_audio_files],
                               made = [], pdfs = []\<rparr>"
proof -
  have h: "discovered notes_env DATASET_PATH = []" by code_simp
  with no_files_no_output[of notes_env DATASET_PATH blank] show ?thesis by blast
qed

section \<open>The detailed figure: when it runs, and what it catches\<close>

lemma create_detailed_skips:
  "real_files a = [] \<or> fake_files a = [] \<Longrightarrow>
   create_detailed_waveform_analysis e a s = Returned (print Skipping_detailed s)"
  by (auto simp: create_detailed_waveform_analysis_def split: list.splits)


lemma create_detailed_runs:
  "real_files a = r # rs \<Longrightarrow> fake_files a = f # fs \<Longrightarrow> mkdir e (plots_dir (data_path a)) = None \<Longrightarrow>
   create_detailed_waveform_analysis e a s =
     (case detailed_block e (detailed_pdf (data_path a)) r f of
        Inr fig \<Rightarrow> Returned (s\<lparr>made := made s @ [plots_dir (data_path a)],
                                pdfs := pdfs s @ [(detailed_pdf (data_path a), fig)],
                                console := console s @ [Detailed_saved]\<rparr>)
      | Inl ex \<Rightarrow> Returned (s\<lparr>made := made s @ [plots_dir (data_path a)],
                               console := console s @ [Error_detailed ex]\<rparr>))"
  by (auto simp: create_detailed_waveform_analysis_def Let_def print_def split: sum.splits)





section \<open>The detailed figure: the common sample rate\<close>

lemma prepare_Inr:
  assumes "load e real_file = Inr (ra, sr_real)" "load e fake_file = Inr (fa, sr_fake)"
    "prepare e real_file fake_file = Inr (ra', fa', t)"
  shows "t = min sr_real (min sr_fake 22050)"
    "sr_real = t \<longrightarrow> ra' = ra" "sr_real \<noteq> t \<longrightarrow> resample e ra sr_real t = Inr ra'"
    "sr_fake = t \<longrightarrow> fa' = fa" "sr_fake \<noteq> t \<longrightarrow> resample e fa sr_fake t = Inr fa'"
  using assms by (auto simp: prepare_def Let_def split: sum.splits if_splits)

lemma to_mantissa_numeral:
  "to_mantissa (numeral k) p q e =
     (if p < 2 ^ 52 * q then to_mantissa (pred_numeral k) (2 * p) q (e - 1)
      else if 2 ^ 53 * q \<le> p then to_mantissa (pred_numeral k) p (2 * q) (e + 1)
      else (p, q, e))"
  by (simp add: numeral_eq_Suc)

text \<open>
  \<open>float(12000) / 44100\<close> is \<open>4901877145437275 * 2 ^ - 54\<close>, a little more than
  \<open>40 / 147\<close>; \<open>147\<close> times this is rounded to \<open>5629499534213121 * 2 ^ - 47\<close>, the binary64
  number that follows \<open>40 = 5629499534213120 * 2 ^ - 47\<close>.
\<close>

lemma ratio_12000_44100: "nearest 12000 44100 0 = (4901877145437275, - 54)"
proof -
  have n: "to_mantissa 2200 12000 44100 0 = (216172782113783808000, 44100, - 54)"
    by (simp add: to_mantissa_numeral)
  have r: "round_half_even 216172782113783808000 44100 = 4901877145437275"
    by (simp add: round_half_even_def Let_def)
  show ?thesis by (simp add: nearest_def n r)
qed

lemma product_147: "nearest (147 * 4901877145437275) 1 (- 54) = (5629499534213121, - 47)"
proof -
  have n: "to_mantissa 2200 720575940379279425 1 (- 54) = (720575940379279425, 128, - 47)"
    by (simp add: to_mantissa_numeral)
  have r: "round_half_even 720575940379279425 128 = 5629499534213121"
    by (simp add: round_half_even_def Let_def)
  show ?thesis by (simp add: nearest_def n r)
qed

lemma n_samples_147: "n_samples 147 44100 12000 = 41"
  using ratio_12000_44100 product_147 by (simp add: n_samples_def ceil_def)

lemma map_silence:
  "\<forall>i \<in> set is. f i < n \<Longrightarrow> map (\<lambda>i. silence n ! f i) is = silence (length is)"
  by (induction "is") (simp_all add: silence_def)

lemma resample_silence_147: "librosa_resample (silence 147) 44100 12000 = Inr (silence 41)"
proof -
  have "map (\<lambda>i. silence 147 ! min (i * 44100 div 12000) (length (silence 147) - 1)) [0 ..< 41]
        = silence (length [0 ..< 41 :: nat])"
    by (rule map_silence) (simp add: silence_def min_less_iff_disj)
  then show ?thesis by (simp add: librosa_resample_def n_samples_147 silence_def)
qed

lemma librosa_env_loads:
  "load librosa_env clip_44100 = Inr (silence 147, 44100)"
  "load librosa_env clip_12000 = Inr (silence 40, 12000)"
  by (simp_all add: librosa_env_def clip_44100_def clip_12000_def child_def)

lemma librosa_env_prepare:
  "prepare librosa_env clip_44100 clip_12000 = Inr (silence 41, silence 40, 12000)"
  using resample_silence_147
  by (simp add: prepare_def librosa_env_loads) (simp add: librosa_env_def)

text \<open>
  C6 as stated fails in its last part. \<open>librosa.resample\<close> computes the number of
  samples it returns in floating point, and the rounded ratio can push the product just
  above a whole number. Here the real file holds 147 samples at 44100 Hz and the fake
  file is at 12000 Hz: the target is 12000 Hz and the decoded length scaled by
  \<open>12000 / 44100\<close> is 40 exactly, yet the resampled real signal has 41 samples.
\<close>

theorem resample_count_counterexample:
  "load librosa_env clip_44100 = Inr (silence 147, 44100) \<and>
   load librosa_env clip_12000 = Inr (silence 40, 12000) \<and>
   prepare librosa_env clip_44100 clip_12000 = Inr (silence 41, silence 40, 12000) \<and>
   length (silence 147) * 12000 = 40 * 44100 \<and>
   length (silence 41) \<noteq> 40"
  by (simp add: librosa_env_loads librosa_env_prepare) (simp add: silence_def)

text \<open>
  C6, amended. When both files decode and lines 147 to 154 end without an exception, the
  target rate is the least of the two native rates and 22050; a signal whose native rate
  is the target is passed on as decoded, and any other is replaced by what
  \<open>librosa.resample\<close> returns for it from its native rate to the target. Nothing is said
  of the number of samples \<open>librosa.resample\<close> returns.
\<close>

theorem resample_target:
  assumes "load e real_file = Inr (ra, sr_real)" "load e fake_file = Inr (fa, sr_fake)"
    "prepare e real_file fake_file = Inr (ra', fa', t)"
  shows "t = min sr_real (min sr_fake 22050) \<and>
         (sr_real = t \<longrightarrow> ra' = ra) \<and> (sr_real \<noteq> t \<longrightarrow> resample e ra sr_real t = Inr ra') \<and>
         (sr_fake = t \<longrightarrow> fa' = fa) \<and> (sr_fake \<noteq> t \<longrightarrow> resample e fa sr_fake t = Inr fa')"
  using prepare_Inr[OF assms] by (intro conjI)

theorem resample_target_witness:
  "load librosa_env clip_44100 = Inr (silence 147, 44100) \<and>
   load librosa_env clip_12000 = Inr (silence 40, 12000) \<and>
   prepare librosa_env clip_44100 clip_12000 = Inr (silence 41, silence 40, 12000) \<and>
   12000 = min (44100::nat) (min 12000 22050) \<and>
   (44100::nat) \<noteq> 12000 \<and>
   resample librosa_env (silence 147) 44100 12000 = Inr (silence 41)"
proof -
  note h = librosa_env_loads librosa_env_prepare
  note t = resample_target[OF h]
  have ne: "(44100::nat) \<noteq> 12000" by simp
  note t1 = t[THEN conjunct1]
    and t3 = t[THEN conjunct2, THEN conjunct2, THEN conjunct1, rule_format, OF ne]
  from h t1 ne t3 show ?thesis by (intro conjI) assumption+
qed

section \<open>The detailed figure: signals of different lengths\<close>

lemma plot_iff: "plot ax (n, sr) y fig = (if n = length y then Inr (fig @ [(ax, Line (n, sr) y)]) else Inl ValueError)"
  by (simp add: plot_def ValueError_def)

lemma render_detailed_result:
  "render_detailed ra fa t =
     (if length ra \<noteq> length fa \<or> length ra < 2 * t \<or> length fa < 2 * t then Inl ValueError
      else Inr [((0, 0), Line (length ra, t) ra), ((0, 0), Line (length ra, t) fa),
                ((0, 0), Title ''Waveform Overlay''),
                ((1, 0), Line (2 * t, t) (take (2 * t) ra)),
                ((1, 0), Line (2 * t, t) (take (2 * t) fa)),
                ((1, 0), Title ''Zoomed (First 2 sec)''),
                ((2, 0), Hist ra), ((2, 0), Hist fa),
                ((2, 0), Title ''Amplitude Distribution'')])"
  by (auto simp: render_detailed_def Let_def plot_iff min_def)

text \<open>
  C10. Both sequences are non-empty, the folder is made, and both signals are decoded and
  brought to the target rate \<open>t\<close>. The overlay plots the fake signal against the time
  axis of the real one, and the zoom plots both against \<open>2 * t\<close> points. So when the two
  signals differ in length, or one of them has fewer than \<open>2 * t\<close> samples, \<open>plot\<close>
  raises, the exception is printed, and the call returns without a saved PDF. In every
  other case the drawing goes through.
\<close>

theorem mismatched_lengths_abort:
  assumes "real_files a = r # rs" "fake_files a = f # fs"
    and "mkdir e (plots_dir (data_path a)) = None"
    and "prepare e r f = Inr (ra, fa, t)"
  shows "(length ra \<noteq> length fa \<or> length ra < 2 * t \<or> length fa < 2 * t \<longrightarrow>
           render_detailed ra fa t = Inl (Exception ''x and y must have same first dimension'') \<and>
           create_detailed_waveform_analysis e a s =
             Returned (s\<lparr>made := made s @ [plots_dir (data_path a)],
                         console := console s @
                           [Error_detailed (Exception ''x and y must have same first dimension'')]\<rparr>)) \<and>
         (length ra = length fa \<and> 2 * t \<le> length ra \<longrightarrow> (\<exists>fig. render_detailed ra fa t = Inr fig))"
proof -
  have "create_detailed_waveform_analysis e a s =
             Returned (s\<lparr>made := made s @ [plots_dir (data_path a)],
                         console := console s @ [Error_detailed ValueError]\<rparr>)"
    if "length ra \<noteq> length fa \<or> length ra < 2 * t \<or> length fa < 2 * t"
    unfolding create_detailed_runs[OF assms(1-3)]
    using that assms(4) by (simp add: detailed_block_def render_detailed_result)
  then show ?thesis
    by (auto simp: render_detailed_result ValueError_def)
qed

theorem mismatched_lengths_abort_witness:
  "real_files (scan uneven_env (init ''/data''))
     = child ''/data'' CHR ''/'' ''real_a.wav'' #
       [child ''/data'' CHR ''/'' ''clip_d.wav'', child ''/data'' CHR ''/'' ''real_fake_e.flac''] \<and>
   fake_files (scan uneven_env (init ''/data''))
     = child ''/data'' CHR ''/'' ''Fake_c.wav'' # [child ''/data'' CHR ''/'' ''clip_b.mp3''] \<and>
   mkdir uneven_env (plots_dir (data_path (scan uneven_env (init ''/data'')))) = None \<and>
   prepare uneven_env (child ''/data'' CHR ''/'' ''real_a.wav'') (child ''/data'' CHR ''/'' ''Fake_c.wav'')
     = Inr ([5, 1, -4, 2, 0, 3, -1, 2, 6, -3, 1, 0], [1, -1, 2, -2, 3, -3], 3) \<and>
   length [5, 1, -4, 2, 0, 3, -1, 2, 6, -3, 1, 0 :: int] \<noteq> length [1, -1, 2, -2, 3, -3 :: int] \<and>
   create_detailed_waveform_analysis uneven_env (scan uneven_env (init ''/data'')) blank =
     Returned (blank\<lparr>made := made blank @ [plots_dir (data_path (scan uneven_env (init ''/data'')))],
                     console := console blank @
                       [Error_detailed (Exception ''x and y must have same first dimension'')]\<rparr>)"
proof -
  have h1: "real_files (scan uneven_env (init ''/data''))
     = child ''/data'' CHR ''/'' ''real_a.wav'' #
       [child ''/data'' CHR ''/'' ''clip_d.wav'', child ''/data'' CHR ''/'' ''real_fake_e.flac'']"
    by code_simp
  have h2: "fake_files (scan uneven_env (init ''/data''))
     = child ''/data'' CHR ''/'' ''Fake_c.wav'' # [child ''/data'' CHR ''/'' ''clip_b.mp3'']"
    by code_simp
  have h3: "mkdir uneven_env (plots_dir (data_path (scan uneven_env (init ''/data'')))) = None"
    by (simp add: uneven_env_def demo_env_def)
  have h4: "prepare uneven_env (child ''/data'' CHR ''/'' ''real_a.wav'') (child ''/data'' CHR ''/'' ''Fake_c.wav'')
     = Inr ([5, 1, -4, 2, 0, 3, -1, 2, 6, -3, 1, 0], [1, -1, 2, -2, 3, -3], 3)"
    by (simp add: prepare_def uneven_env_def demo_env_def child_def)
  note h = h1 h2 h3 h4
  have l: "length [5, 1, -4, 2, 0, 3, -1, 2, 6, -3, 1, 0 :: int] \<noteq> length [1, -1, 2, -2, 3, -3 :: int]"
    by simp
  note t = mismatched_lengths_abort[OF h, of blank, THEN conjunct1, rule_format,
                                    OF disjI1[OF l], THEN conjunct2]
  from h l t show ?thesis by (intro conjI) assumption+
qed

section \<open>The comparison figure: only real files\<close>

lemma take_min_length: "take (min (length xs) n) xs = take n xs"
  by (simp add: min_def)

lemma single_block_eq:
  "single_block e ax title file fig =
     (case load e file of
        Inl ex \<Rightarrow> (Some ex, fig)
      | Inr (audio, sr) \<Rightarrow>
          (None, fig @ [(ax, Line (min (length audio) (5 * sr), sr) (take (5 * sr) audio)),
                        (ax, Title title)]))"
  by (auto simp: single_block_def plot_def Let_def take_min_length split: sum.splits)

lemma combined_block_eq:
  "combined_block e r f fig =
     (case load e r of
        Inl ex \<Rightarrow> (Some ex, fig)
      | Inr (audio_real, sr_real) \<Rightarrow>
         (case load e f of
            Inl ex \<Rightarrow> (Some ex, fig)
          | Inr (audio_fake, sr_fake) \<Rightarrow>
              (None, fig @ [((0, 0), Line (length audio_real, sr_real) audio_real),
                            ((0, 0), Line (length audio_fake, sr_fake) audio_fake),
                            ((0, 0), Title ''A) Real vs Fake Waveform'')])))"
  by (auto simp: combined_block_def plot_def Let_def split: sum.splits)

lemma on_axes_append: "on_axes ax (xs @ ys) = on_axes ax xs @ on_axes ax ys"
  by (simp add: on_axes_def)

lemma on_axes_simps:
  "on_axes ax [] = []"
  "on_axes ax ((ax', art) # fig) = (if ax' = ax then art # on_axes ax fig else on_axes ax fig)"
  by (simp_all add: on_axes_def)

lemma single_block_result:
  "single_block e ax title file fig =
     (case load e file of Inl ex \<Rightarrow> Some ex | Inr r \<Rightarrow> None,
      fig @ map (Pair ax) (first_5_sec e title (Some file)))"
  by (auto simp: single_block_eq first_5_sec_def split: sum.splits)

lemma combined_block_result:
  "combined_block e r f [] =
     (case load e r of Inl ex \<Rightarrow> Some ex
      | Inr a \<Rightarrow> (case load e f of Inl ex \<Rightarrow> Some ex | Inr b \<Rightarrow> None),
      map (Pair (0, 0)) (combined_panel e (Some r) (Some f)))"
  by (auto simp: combined_block_eq combined_panel_def split: sum.splits)

lemma on_axes_map_Pair: "on_axes ax (map (Pair ax') xs) = (if ax' = ax then xs else [])"
  by (induction xs) (auto simp: on_axes_def)

lemma comparison_result:
  assumes "mkdir e (plots_dir (data_path a)) = None"
    and "savefig e (waveform_pdf (data_path a)) = None"
  shows "create_waveform_comparison e a s =
           Returned (s\<lparr>made := made s @ [plots_dir (data_path a)],
                       pdfs := pdfs s @ [(waveform_pdf (data_path a),
                          comparison_figure e (example (real_files a)) (example (fake_files a)))],
                       console := console s @ [Creating_waveform_analysis]
                          @ combined_error e (example (real_files a)) (example (fake_files a))
                          @ block_error e Error_real (example (real_files a))
                          @ block_error e Error_fake (example (fake_files a))
                          @ [Waveform_saved]\<rparr>)"
proof (cases "example (real_files a)")
  case None
  note r = None
  show ?thesis
  proof (cases "example (fake_files a)")
    case None
    with r assms show ?thesis
      by (simp add: create_waveform_comparison_def Let_def logged_def print_def
          comparison_figure_def combined_panel_def combined_error_def
          first_5_sec_def block_error_def)
  next
    case (Some f)
    with r assms show ?thesis
      by (simp add: create_waveform_comparison_def Let_def single_block_result logged_def print_def
          comparison_figure_def combined_panel_def combined_error_def
          block_error_def first_5_sec_def[of _ _ None] split: sum.splits)
  qed
next
  case (Some r')
  note r = Some
  show ?thesis
  proof (cases "example (fake_files a)")
    case None
    with r assms show ?thesis
      by (simp add: create_waveform_comparison_def Let_def single_block_result logged_def print_def
          comparison_figure_def combined_panel_def combined_error_def
          block_error_def first_5_sec_def[of _ _ None] split: sum.splits)
  next
    case (Some f)
    with r assms show ?thesis
      by (simp add: create_waveform_comparison_def Let_def single_block_result
          combined_block_result logged_def print_def
          comparison_figure_def combined_error_def
          block_error_def split: sum.splits)
  qed
qed

lemma comparison_figure_panels:
  "on_axes (0, 0) (comparison_figure e real fake) = combined_panel e real fake"
  "on_axes (0, 1) (comparison_figure e real fake)
     = first_5_sec e ''B) Real Sound (First 5 sec)'' real"
  "on_axes (1, 0) (comparison_figure e real fake)
     = first_5_sec e ''C) Fake Sound (First 5 sec)'' fake"
  "on_axes (1, 1) (comparison_figure e real fake) = [Text (summary real fake)]"
  by (simp_all add: comparison_figure_def on_axes_append on_axes_map_Pair on_axes_simps)

lemma comparison_mkdir_fails:
  "mkdir e (plots_dir (data_path a)) = Some ex \<Longrightarrow>
   create_waveform_comparison e a s
     = Raised ex (s\<lparr>console := console s @ [Creating_waveform_analysis]\<rparr>)"
  by (simp add: create_waveform_comparison_def Let_def print_def)

lemma logged_fields:
  "made (logged m r t) = made t" "pdfs (logged m r t) = pdfs t"
  by (simp_all add: logged_def print_def split: option.splits)

lemma comparison_savefig_fails:
  "mkdir e (plots_dir (data_path a)) = None \<Longrightarrow>
   savefig e (waveform_pdf (data_path a)) = Some ex \<Longrightarrow>
   \<exists>s'. create_waveform_comparison e a s = Raised ex s' \<and> pdfs s' = pdfs s"
  by (simp add: create_waveform_comparison_def Let_def logged_fields print_def
      split: prod.splits)

text \<open>
  C7 as stated fails: \<open>output_dir.mkdir(exist_ok=True)\<close> (line 60) and \<open>plt.savefig\<close>
  (line 130) stand outside the three \<open>try\<close> blocks. The dataset holds one real file and
  no fake file. Where the \<open>plots\<close> folder cannot be made, and where the figure cannot
  be written, the exception leaves \<open>create_waveform_comparison\<close> and no PDF is saved.
\<close>

theorem real_only_unsaved_counterexample:
  "real_files (scan locked_env (init ''/data'')) = [child ''/data'' CHR ''/'' ''real_a.wav''] \<and>
   fake_files (scan locked_env (init ''/data'')) = [] \<and>
   create_waveform_comparison locked_env (scan locked_env (init ''/data'')) blank
     = Raised (Exception ''PermissionError'')
         \<lparr>console = [Creating_waveform_analysis], made = [], pdfs = []\<rparr> \<and>
   real_files (scan full_disk_env (init ''/data'')) = [child ''/data'' CHR ''/'' ''real_a.wav''] \<and>
   fake_files (scan full_disk_env (init ''/data'')) = [] \<and>
   create_waveform_comparison full_disk_env (scan full_disk_env (init ''/data'')) blank
     = Raised (Exception ''OSError'')
         \<lparr>console = [Creating_waveform_analysis], made = [''/data/plots''], pdfs = []\<rparr>"
  by code_simp

text \<open>
  C7, amended: the claim holds provided the folder can be made and the figure written.

  The analyzer holds real files and no fake file. Then \<open>create_waveform_comparison\<close>
  returns with \<open>waveform_analysis.pdf\<close> saved: its combined panel and its fake panel are
  blank, its real panel shows the first five seconds of the first real file (or is blank,
  with the error printed, when that file does not decode), its last panel holds the
  summary; and \<open>create_detailed_waveform_analysis\<close> only prints that it skips.

  For every analyzer the three blocks are independent and none of them stops the save:
  the call returns with the figure saved; the console gains the first line, the error of
  the combined block if one of the two files does not decode, the error of the real
  block if the real file does not decode, the error of the fake block if the fake file
  does not decode, and the last line; the combined panel shows both signals if both
  decode and nothing otherwise, and the real panel and the fake panel each show what
  their own file decodes to.

  An exception of \<open>mkdir\<close> or of \<open>savefig\<close> is not caught, and then no PDF is saved.
\<close>

theorem real_only_still_saved:
  "(real_files a = r # rs \<and> fake_files a = [] \<and>
    mkdir e (plots_dir (data_path a)) = None \<and> savefig e (waveform_pdf (data_path a)) = None \<longrightarrow>
      create_waveform_comparison e a s =
        Returned (s\<lparr>made := made s @ [plots_dir (data_path a)],
                    pdfs := pdfs s @ [(waveform_pdf (data_path a),
                                       comparison_figure e (Some r) None)],
                    console := console s @ [Creating_waveform_analysis]
                       @ block_error e Error_real (Some r) @ [Waveform_saved]\<rparr>) \<and>
      on_axes (0, 0) (comparison_figure e (Some r) None) = [] \<and>
      on_axes (1, 0) (comparison_figure e (Some r) None) = [] \<and>
      on_axes (0, 1) (comparison_figure e (Some r) None)
        = first_5_sec e ''B) Real Sound (First 5 sec)'' (Some r) \<and>
      on_axes (1, 1) (comparison_figure e (Some r) None) = [Text (summary (Some r) None)] \<and>
      create_detailed_waveform_analysis e a s'
        = Returned (s'\<lparr>console := console s' @ [Skipping_detailed]\<rparr>)) \<and>
   (mkdir e (plots_dir (data_path a)) = None \<and> savefig e (waveform_pdf (data_path a)) = None \<longrightarrow>
      create_waveform_comparison e a s =
        Returned (s\<lparr>made := made s @ [plots_dir (data_path a)],
                    pdfs := pdfs s @ [(waveform_pdf (data_path a),
                       comparison_figure e (example (real_files a)) (example (fake_files a)))],
                    console := console s @ [Creating_waveform_analysis]
                       @ combined_error e (example (real_files a)) (example (fake_files a))
                       @ block_error e Error_real (example (real_files a))
                       @ block_error e Error_fake (example (fake_files a))
                       @ [Waveform_saved]\<rparr>)) \<and>
   on_axes (0, 0) (comparison_figure e real fake) = combined_panel e real fake \<and>
   on_axes (0, 1) (comparison_figure e real fake)
     = first_5_sec e ''B) Real Sound (First 5 sec)'' real \<and>
   on_axes (1, 0) (comparison_figure e real fake)
     = first_5_sec e ''C) Fake Sound (First 5 sec)'' fake \<and>
   on_axes (1, 1) (comparison_figure e real fake) = [Text (summary real fake)] \<and>
   (mkdir e (plots_dir (data_path a)) = Some ex \<longrightarrow>
      create_waveform_comparison e a s
        = Raised ex (s\<lparr>console := console s @ [Creating_waveform_analysis]\<rparr>)) \<and>
   (mkdir e (plots_dir (data_path a)) = None \<and>
    savefig e (waveform_pdf (data_path a)) = Some ex \<longrightarrow>
      (\<exists>s'. create_waveform_comparison e a s = Raised ex s' \<and> pdfs s' = pdfs s))"
proof -
  have one: "create_waveform_comparison e a s =
        Returned (s\<lparr>made := made s @ [plots_dir (data_path a)],
                    pdfs := pdfs s @ [(waveform_pdf (data_path a),
                                       comparison_figure e (Some r) None)],
                    console := console s @ [Creating_waveform_analysis]
                       @ block_error e Error_real (Some r) @ [Waveform_saved]\<rparr>) \<and>
      on_axes (0, 0) (comparison_figure e (Some r) None) = [] \<and>
      on_axes (1, 0) (comparison_figure e (Some r) None) = [] \<and>
      on_axes (0, 1) (comparison_figure e (Some r) None)
        = first_5_sec e ''B) Real Sound (First 5 sec)'' (Some r) \<and>
      on_axes (1, 1) (comparison_figure e (Some r) None) = [Text (summary (Some r) None)] \<and>
      create_detailed_waveform_analysis e a s'
        = Returned (s'\<lparr>console := console s' @ [Skipping_detailed]\<rparr>)"
    if l: "real_files a = r # rs" "fake_files a = []"
      and ok: "mkdir e (plots_dir (data_path a)) = None"
        "savefig e (waveform_pdf (data_path a)) = None"
  proof -
    from l have ex: "example (real_files a) = Some r" "example (fake_files a) = None"
      by (simp_all add: example_def)
    have c: "create_waveform_comparison e a s =
        Returned (s\<lparr>made := made s @ [plots_dir (data_path a)],
                    pdfs := pdfs s @ [(waveform_pdf (data_path a),
                                       comparison_figure e (Some r) None)],
                    console := console s @ [Creating_waveform_analysis]
                       @ block_error e Error_real (Some r) @ [Waveform_saved]\<rparr>)"
      unfolding comparison_result[OF ok] ex
      by (simp add: combined_error_def block_error_def)
    have p: "on_axes (0, 0) (comparison_figure e (Some r) None) = []"
      "on_axes (1, 0) (comparison_figure e (Some r) None) = []"
      unfolding comparison_figure_panels
      by (simp_all add: combined_panel_def first_5_sec_def)
    have d: "create_detailed_waveform_analysis e a s'
        = Returned (s'\<lparr>console := console s' @ [Skipping_detailed]\<rparr>)"
      using create_detailed_skips[of a e s'] l(2) by (simp add: print_def)
    from c p d comparison_figure_panels(2,4)[of e "Some r" None] show ?thesis
      by (intro conjI)
  qed
  note two = comparison_result[of e a s]
  note three = comparison_figure_panels[of e real fake]
  note four = comparison_mkdir_fails[of e a ex s]
  note five = comparison_savefig_fails[of e a ex s]
  from one two three four five show ?thesis by blast
qed

theorem real_only_still_saved_witness:
  "real_files (scan only_real_env (init ''/data'')) = child ''/data'' CHR ''/'' ''real_a.wav'' # [] \<and>
   fake_files (scan only_real_env (init ''/data'')) = [] \<and>
   mkdir only_real_env (plots_dir (data_path (scan only_real_env (init ''/data'')))) = None \<and>
   savefig only_real_env (waveform_pdf (data_path (scan only_real_env (init ''/data'')))) = None \<and>
   create_waveform_comparison only_real_env (scan only_real_env (init ''/data'')) blank
     = Returned \<lparr>console = [Creating_waveform_analysis, Waveform_saved],
                 made = [''/data/plots''],
                 pdfs = [(''/data/plots/waveform_analysis.pdf'',
                          [((0, 1), Line (4, 4) [0, 3, -2, 1]),
                           ((0, 1), Title ''B) Real Sound (First 5 sec)''),
                           ((1, 1), Text (summary (Some (child ''/data'' CHR ''/'' ''real_a.wav''))
                                                  None))])]\<rparr> \<and>
   create_detailed_waveform_analysis only_real_env (scan only_real_env (init ''/data'')) blank
     = Returned (blank\<lparr>console := console blank @ [Skipping_detailed]\<rparr>) \<and>
   mkdir corrupt_fake_env (plots_dir (data_path (scan corrupt_fake_env (init ''/data'')))) = None \<and>
   savefig corrupt_fake_env (waveform_pdf (data_path (scan corrupt_fake_env (init ''/data''))))
     = None \<and>
   create_waveform_comparison corrupt_fake_env (scan corrupt_fake_env (init ''/data'')) blank
     = Returned \<lparr>console = [Creating_waveform_analysis,
                            Error_combined (Exception ''NoBackendError''),
                            Error_fake (Exception ''NoBackendError''), Waveform_saved],
                 made = [''/data/plots''],
                 pdfs = [(''/data/plots/waveform_analysis.pdf'',
                          [((0, 1), Line (4, 4) [0, 3, -2, 1]),
                           ((0, 1), Title ''B) Real Sound (First 5 sec)''),
                           ((1, 1), Text (summary (Some (child ''/data'' CHR ''/'' ''real_a.wav''))
                                            (Some (child ''/data'' CHR ''/'' ''Fake_c.wav''))))])]\<rparr>"
proof -
  let ?a = "scan only_real_env (init ''/data'')" and ?b = "scan corrupt_fake_env (init ''/data'')"
  have h1: "real_files ?a = child ''/data'' CHR ''/'' ''real_a.wav'' # []"
    by code_simp
  have h2: "fake_files ?a = []"
    by code_simp
  have h3: "mkdir only_real_env (plots_dir (data_path ?a)) = None"
    by (simp add: only_real_env_def demo_env_def)
  have h4: "savefig only_real_env (waveform_pdf (data_path ?a)) = None"
    by (simp add: only_real_env_def demo_env_def)
  have g3: "mkdir corrupt_fake_env (plots_dir (data_path ?b)) = None"
    by (simp add: corrupt_fake_env_def demo_env_def)
  have g4: "savefig corrupt_fake_env (waveform_pdf (data_path ?b)) = None"
    by (simp add: corrupt_fake_env_def demo_env_def)
  have da: "data_path ?a = ''/data''" and db: "data_path ?b = ''/data''"
    by (simp_all add: data_path_scan init_def)
  have xb: "example (real_files ?b) = Some (child ''/data'' CHR ''/'' ''real_a.wav'')"
    "example (fake_files ?b) = Some (child ''/data'' CHR ''/'' ''Fake_c.wav'')"
    by code_simp+
  note t = real_only_still_saved[where a = ?a and e = only_real_env and s = blank and s' = blank,
      THEN conjunct1, rule_format, OF conjI[OF h1 conjI[OF h2 conjI[OF h3 h4]]]]
  note u = real_only_still_saved[where a = ?b and e = corrupt_fake_env and s = blank,
      THEN conjunct2, THEN conjunct1, rule_format, OF conjI[OF g3 g4]]
  have ev1: "blank\<lparr>made := made blank @ [plots_dir ''/data''],
                    pdfs := pdfs blank @ [(waveform_pdf ''/data'',
                       comparison_figure only_real_env
                         (Some (child ''/data'' CHR ''/'' ''real_a.wav'')) None)],
                    console := console blank @ [Creating_waveform_analysis]
                       @ block_error only_real_env Error_real
                           (Some (child ''/data'' CHR ''/'' ''real_a.wav''))
                       @ [Waveform_saved]\<rparr>
     = \<lparr>console = [Creating_waveform_analysis, Waveform_saved],
        made = [''/data/plots''],
        pdfs = [(''/data/plots/waveform_analysis.pdf'',
                 [((0, 1), Line (4, 4) [0, 3, -2, 1]),
                  ((0, 1), Title ''B) Real Sound (First 5 sec)''),
                  ((1, 1), Text (summary (Some (child ''/data'' CHR ''/'' ''real_a.wav''))
                                         None))])]\<rparr>"
    by code_simp
  have ev2: "blank\<lparr>made := made blank @ [plots_dir ''/data''],
                    pdfs := pdfs blank @ [(waveform_pdf ''/data'',
                       comparison_figure corrupt_fake_env
                         (Some (child ''/data'' CHR ''/'' ''real_a.wav''))
                         (Some (child ''/data'' CHR ''/'' ''Fake_c.wav'')))],
                    console := console blank @ [Creating_waveform_analysis]
                       @ combined_error corrupt_fake_env
                           (Some (child ''/data'' CHR ''/'' ''real_a.wav''))
                           (Some (child ''/data'' CHR ''/'' ''Fake_c.wav''))
                       @ block_error corrupt_fake_env Error_real
                           (Some (child ''/data'' CHR ''/'' ''real_a.wav''))
                       @ block_error corrupt_fake_env Error_fake
                           (Some (child ''/data'' CHR ''/'' ''Fake_c.wav''))
                       @ [Waveform_saved]\<rparr>
     = \<lparr>console = [Creating_waveform_analysis,
                   Error_combined (Exception ''NoBackendError''),
                   Error_fake (Exception ''NoBackendError''), Waveform_saved],
        made = [''/data/plots''],
        pdfs = [(''/data/plots/waveform_analysis.pdf'',
                 [((0, 1), Line (4, 4) [0, 3, -2, 1]),
                  ((0, 1), Title ''B) Real Sound (First 5 sec)''),
                  ((1, 1), Text (summary (Some (child ''/data'' CHR ''/'' ''real_a.wav''))
                                   (Some (child ''/data'' CHR ''/'' ''Fake_c.wav''))))])]\<rparr>"
    by code_simp
  note run1 = t[THEN conjunct1, unfolded da ev1]
  note skip = t[THEN conjunct2, THEN conjunct2, THEN conjunct2, THEN conjunct2, THEN conjunct2]
  note run2 = u[unfolded db xb ev2]
  from h1 h2 h3 h4 run1 skip g3 g4 run2 show ?thesis by (intro conjI) assumption+
qed

end
